theory Spec2Isabelle
  imports Complex_Main "HOL-Library.Monad_Syntax"
begin

section \<open>Income classification and aggregation engine (package income)\<close>

subsection \<open>Decimals\<close>

text \<open>
  The code computes with \<^verbatim>\<open>decimal.Decimal\<close> (shopspring/decimal), an exact decimal of
  unbounded size. Its values are rational numbers, and \<^verbatim>\<open>Add\<close>, \<^verbatim>\<open>Sub\<close>, \<^verbatim>\<open>Mul\<close> and the
  comparisons are exact, so they are the operations of \<open>rat\<close>. \<^verbatim>\<open>Div\<close> is not exact: it
  is \<^verbatim>\<open>DivRound(d2, DivisionPrecision)\<close> with \<^verbatim>\<open>DivisionPrecision = 16\<close>, the quotient rounded
  half away from zero at 16 decimal places, and it panics with
  \<^verbatim>\<open>"decimal division by 0"\<close> when the divisor is zero. The panic is the value \<open>None\<close>.
\<close>

type_synonym decimal = rat

definition roundHalfAway :: "rat \<Rightarrow> int" where
  "roundHalfAway x = (if 0 \<le> x then \<lfloor>x + 1 / 2\<rfloor> else - \<lfloor>- x + 1 / 2\<rfloor>)"

definition decimal_Div :: "decimal \<Rightarrow> decimal \<Rightarrow> decimal option" where
  "decimal_Div d d2 =
     (if d2 = 0 then None
      else Some (of_int (roundHalfAway (d / d2 * 10 ^ 16)) / 10 ^ 16))"

subsection \<open>Strings\<close>

text \<open>
  A Go string is a sequence of bytes, text being encoded in UTF-8, and \<^verbatim>\<open>len\<close> counts
  bytes; so does \<open>length\<close> on \<open>string\<close>.

  \<^verbatim>\<open>strings.TrimSpace\<close> removes the leading and the trailing white space of Unicode
  (\<^verbatim>\<open>unicode.IsSpace\<close>): tab, line feed, vertical tab, form feed, carriage return and
  space, and the characters U+0085, U+00A0, U+1680, U+2000 to U+200A, U+2028, U+2029,
  U+202F, U+205F and U+3000. \<open>spaceRunes\<close> lists their encodings in UTF-8. A character is
  read from the left with \<^verbatim>\<open>utf8.DecodeRuneInString\<close> and from the right with
  \<^verbatim>\<open>utf8.DecodeLastRuneInString\<close>; both give a white space exactly where the bytes of
  one of these encodings stand, bytes that encode nothing being no white space.
\<close>

definition spaceRunes :: "string list" where
  "spaceRunes =
     [[CHR 0x09], [CHR 0x0A], [CHR 0x0B], [CHR 0x0C], [CHR 0x0D], [CHR 0x20],
      [CHR 0xC2, CHR 0x85], [CHR 0xC2, CHR 0xA0], [CHR 0xE1, CHR 0x9A, CHR 0x80],
      [CHR 0xE2, CHR 0x80, CHR 0x80], [CHR 0xE2, CHR 0x80, CHR 0x81],
      [CHR 0xE2, CHR 0x80, CHR 0x82], [CHR 0xE2, CHR 0x80, CHR 0x83],
      [CHR 0xE2, CHR 0x80, CHR 0x84], [CHR 0xE2, CHR 0x80, CHR 0x85],
      [CHR 0xE2, CHR 0x80, CHR 0x86], [CHR 0xE2, CHR 0x80, CHR 0x87],
      [CHR 0xE2, CHR 0x80, CHR 0x88], [CHR 0xE2, CHR 0x80, CHR 0x89],
      [CHR 0xE2, CHR 0x80, CHR 0x8A], [CHR 0xE2, CHR 0x80, CHR 0xA8],
      [CHR 0xE2, CHR 0x80, CHR 0xA9], [CHR 0xE2, CHR 0x80, CHR 0xAF],
      [CHR 0xE2, CHR 0x81, CHR 0x9F], [CHR 0xE3, CHR 0x80, CHR 0x80]]"

text \<open>
  \<open>dropRunes runes s\<close> removes from the front of \<open>s\<close> every leading occurrence of one of
  \<open>runes\<close>, until none of them starts \<open>s\<close>.
\<close>

function dropRunes :: "string list \<Rightarrow> string \<Rightarrow> string" where
  "dropRunes runes s =
     (case find (\<lambda>r. r \<noteq> [] \<and> take (length r) s = r) runes of
        None \<Rightarrow> s
      | Some r \<Rightarrow> dropRunes runes (drop (length r) s))"
  by pat_completeness auto

termination
proof (relation "measure (\<lambda>(runes, s). length s)")
  show "wf (measure (\<lambda>(runes, s). length s))" by simp
next
  fix runes :: "string list" and s r :: string
  assume "find (\<lambda>r. r \<noteq> [] \<and> take (length r) s = r) runes = Some r"
  then have "r \<noteq> [] \<and> take (length r) s = r" by (auto simp: find_Some_iff)
  then have "0 < length r \<and> s \<noteq> []" by auto
  then show "((runes, drop (length r) s), (runes, s)) \<in> measure (\<lambda>(runes, s). length s)"
    by simp
qed

declare dropRunes.simps [simp del]

definition TrimLeftSpace :: "string \<Rightarrow> string" where
  "TrimLeftSpace s = dropRunes spaceRunes s"

definition TrimRightSpace :: "string \<Rightarrow> string" where
  "TrimRightSpace s = rev (dropRunes (map rev spaceRunes) (rev s))"

definition TrimSpace :: "string \<Rightarrow> string" where
  "TrimSpace s = TrimRightSpace (TrimLeftSpace s)"

text \<open>
  The number of characters of a text in UTF-8 (\<^verbatim>\<open>utf8.RuneCountInString\<close> on valid
  UTF-8): every byte but the continuation bytes \<^verbatim>\<open>10xxxxxx\<close> starts one. The code never
  counts characters; the number is what a length \<^emph>\<open>in characters\<close> refers to.
\<close>

definition characterCount :: "string \<Rightarrow> nat" where
  "characterCount s =
     length (filter (\<lambda>c. \<not> (128 \<le> (of_char c :: nat) \<and> (of_char c :: nat) < 192)) s)"

text \<open>
  \<^verbatim>\<open>strings.Contains(s, substr)\<close>: is there a position of \<open>s\<close> where \<open>substr\<close> starts.
\<close>

fun Contains :: "string \<Rightarrow> string \<Rightarrow> bool" where
  "Contains [] substr = (substr = [])"
| "Contains (c # cs) substr = (take (length substr) (c # cs) = substr \<or> Contains cs substr)"

text \<open>
  \<^verbatim>\<open>strings.Split(s, sep)\<close> and \<^verbatim>\<open>strings.SplitSeq(s, sep)\<close> for a separator that is not
  empty (every separator of the code is a constant that is not empty): the
  pieces between the occurrences of \<open>sep\<close>, found from the left without overlap. The
  result has at least one piece. \<open>cur\<close> is the piece being read.
\<close>

function splitFrom :: "string \<Rightarrow> string \<Rightarrow> string \<Rightarrow> string list" where
  "splitFrom sep cur [] = [cur]"
| "splitFrom sep cur (c # cs) =
     (if sep \<noteq> [] \<and> take (length sep) (c # cs) = sep
      then cur # splitFrom sep [] (drop (length sep) (c # cs))
      else splitFrom sep (cur @ [c]) cs)"
  by pat_completeness auto
termination
  by (relation "measure (\<lambda>(sep, cur, s). length s)") auto

definition Split :: "string \<Rightarrow> string \<Rightarrow> string list" where
  "Split s sep = splitFrom sep [] s"

subsection \<open>Enumerations\<close>

datatype source =
  SourceUnSpecified | SourceSalary | SourceAllowance | SourceCommission
  | SourceBasicSalaryInterview

fun source_String :: "source \<Rightarrow> string" where
  "source_String SourceUnSpecified = ''UNSPECIFIED''"
| "source_String SourceSalary = ''SALARY''"
| "source_String SourceAllowance = ''ALLOWANCE''"
| "source_String SourceCommission = ''COMMISSION''"
| "source_String SourceBasicSalaryInterview = ''BASIC_SALARY_INTERVIEW''"

datatype product = ProductUnSpecified | ProductSA | ProductSF | ProductPL

datatype status = StatusUnSpecified | StatusPending | StatusCompleted

subsection \<open>Time\<close>

text \<open>
  Of a \<^verbatim>\<open>time.Time\<close> the code reads the year and the month, and compares two of them with
  \<^verbatim>\<open>Before\<close>. Every such time is a midnight parsed from a date in one location, so a time
  is its calendar date and \<^verbatim>\<open>Before\<close> the order of dates. The zero time is 1 January of
  year 1.
\<close>

record Time =
  Year :: int
  Month :: int
  Day :: int

definition zeroTime :: Time where
  "zeroTime = \<lparr>Year = 1, Month = 1, Day = 1\<rparr>"

definition Before :: "Time \<Rightarrow> Time \<Rightarrow> bool" where
  "Before t u =
     (Year t < Year u \<or> (Year t = Year u \<and> (Month t < Month u
        \<or> (Month t = Month u \<and> Day t < Day u))))"

subsection \<open>Library functions taken as parameters\<close>

text \<open>
  The parsers, the formatter and the case mappings of the Go libraries are not code of
  the repository. The model takes them as parameters, so every theorem holds whatever
  they compute:
  \<^item> \<open>NewFromString\<close> is \<^verbatim>\<open>decimal.NewFromString\<close>, \<open>None\<close> its error;
  \<^item> \<open>ParseDate\<close> is \<^verbatim>\<open>time.Parse\<close> and \<^verbatim>\<open>time.ParseInLocation\<close> with the layout
    \<^verbatim>\<open>"02/01/2006"\<close>, \<open>None\<close> its error;
  \<^item> \<open>FormatMonth\<close> is \<^verbatim>\<open>Format("January-2006")\<close>;
  \<^item> \<open>ParseMonth\<close> is \<^verbatim>\<open>time.Parse\<close> with the layout \<^verbatim>\<open>"January-2006"\<close>;
  \<^item> \<open>ToLower\<close> is \<^verbatim>\<open>strings.ToLower\<close>, which maps every letter of Unicode to its lower
    case;
  \<^item> \<open>EqualFold\<close> is \<^verbatim>\<open>strings.EqualFold\<close>, equality under the simple case folding of
    Unicode.
\<close>

record stdlib =
  NewFromString :: "string \<Rightarrow> decimal option"
  ParseDate :: "string \<Rightarrow> Time option"
  FormatMonth :: "Time \<Rightarrow> string"
  ParseMonth :: "string \<Rightarrow> Time option"
  ToLower :: "string \<Rightarrow> string"
  EqualFold :: "string \<Rightarrow> string \<Rightarrow> bool"

text \<open>
  \<^verbatim>\<open>ti, _ := time.Parse("January-2006", label)\<close>: the error is dropped, and with an error
  \<^verbatim>\<open>time.Parse\<close> returns the zero time.
\<close>

definition monthTime :: "stdlib \<Rightarrow> string \<Rightarrow> Time" where
  "monthTime L label = (case ParseMonth L label of None \<Rightarrow> zeroTime | Some t \<Rightarrow> t)"

subsection \<open>The classifier\<close>

record Wordlist =
  wl_ID :: int
  Word :: string
  Category :: source
  wl_CreatedBy :: string
  wl_CreatedAt :: Time

text \<open>
  \<^verbatim>\<open>matchWordlists\<close> has three nested loops with a \<^verbatim>\<open>return\<close> in the innermost: over the
  entries, over the segments of the memo between \<^verbatim>\<open>|\<close> and over the tokens of a segment
  between spaces. \<open>matchTokens\<close> and \<open>matchSegments\<close> are the two inner loops for one entry;
  \<open>True\<close> is the \<^verbatim>\<open>return\<close>. The code also stores the trimmed word back into the entry;
  a later call trims it again and finds the same word, trimming being idempotent.
  \<^verbatim>\<open>len(w.Word)\<close> is the number of bytes of the trimmed word.
\<close>

fun matchTokens :: "stdlib \<Rightarrow> string \<Rightarrow> string list \<Rightarrow> bool" where
  "matchTokens L word [] = False"
| "matchTokens L word (v # ts) =
     (if EqualFold L (TrimSpace v) (ToLower L word) then True else matchTokens L word ts)"

fun matchSegments :: "stdlib \<Rightarrow> string \<Rightarrow> string list \<Rightarrow> bool" where
  "matchSegments L word [] = False"
| "matchSegments L word (t # targets) =
     (if matchTokens L word (Split (TrimSpace t) '' '') then True
      else matchSegments L word targets)"

fun matchLoop :: "stdlib \<Rightarrow> string \<Rightarrow> Wordlist list \<Rightarrow> source \<times> string \<times> bool" where
  "matchLoop L target [] = (SourceUnSpecified, '''', False)"
| "matchLoop L target (w # wordlists) =
     (let word = TrimSpace (Word w) in
      if length word \<le> 3
      then (if matchSegments L word (Split target ''|'') then (Category w, word, True)
            else matchLoop L target wordlists)
      else (if Contains target (ToLower L word) then (Category w, word, True)
            else matchLoop L target wordlists))"

definition matchWordlists ::
  "stdlib \<Rightarrow> string \<Rightarrow> Wordlist list \<Rightarrow> source \<times> string \<times> bool" where
  "matchWordlists L target wordlists = matchLoop L (ToLower L (TrimSpace target)) wordlists"

text \<open>
  An entry matches a memo when the classifier, given the wordlist of that entry alone,
  reports a match.
\<close>

definition entryMatches :: "stdlib \<Rightarrow> string \<Rightarrow> Wordlist \<Rightarrow> bool" where
  "entryMatches L memo w = snd (snd (matchWordlists L memo [w]))"

subsection \<open>Sorting\<close>

text \<open>
  \<^verbatim>\<open>sort.Slice(xs, lt)\<close> leaves a permutation of the list in which \<open>lt\<close> holds of no
  element and an earlier one; it is not stable, so the order among elements that compare
  equal is not fixed. The model sorts by insertion. Nothing proved below depends on the
  order of the sorted list.
\<close>

fun insertBy :: "('a \<Rightarrow> 'a \<Rightarrow> bool) \<Rightarrow> 'a \<Rightarrow> 'a list \<Rightarrow> 'a list" where
  "insertBy lt x [] = [x]"
| "insertBy lt x (y # ys) = (if lt y x then y # insertBy lt x ys else x # y # ys)"

definition sortSlice :: "('a \<Rightarrow> 'a \<Rightarrow> bool) \<Rightarrow> 'a list \<Rightarrow> 'a list" where
  "sortSlice lt xs = foldr (insertBy lt) xs []"

subsection \<open>The data model\<close>

record Transaction =
  Date :: Time
  BillNumber :: string
  Noted :: string
  Amount :: decimal

record Breakdown =
  bd_MonthlyAverage :: decimal
  bd_Total :: decimal

record Source =
  src_BasicSalary :: Breakdown
  src_Allowance :: Breakdown
  src_Commission :: Breakdown
  src_Other :: Breakdown

record MonthlySalary =
  ms_Month :: string
  TimesReceived :: decimal
  ms_Transactions :: "Transaction list"
  ms_Total :: decimal

record SalaryBreakdown =
  MonthlySalaries :: "MonthlySalary list"
  BasicSalary :: decimal
  sb_Total :: decimal

record Allowance =
  Title :: string
  Months :: decimal
  al_MonthlyAverage :: decimal
  al_Transactions :: "Transaction list"
  al_Total :: decimal

record AllowanceBreakdown =
  Allowances :: "Allowance list"
  ab_Total :: decimal

record Commission =
  co_Month :: string
  co_Transactions :: "Transaction list"
  co_Total :: decimal

record CommissionBreakdown =
  Commissions :: "Commission list"
  cb_MonthlyAverage :: decimal
  cb_Total :: decimal

record Account =
  acc_Number :: string
  DisplayName :: string
  Currency :: string

text \<open>
  The four breakdowns of a \<^verbatim>\<open>Calculation\<close> are pointers. \<^verbatim>\<open>newCalculation\<close> leaves them
  \<^verbatim>\<open>nil\<close>, and \<^verbatim>\<open>populate\<close> or \<^verbatim>\<open>ReCalculate\<close> sets them before anything reads them; the
  model holds the values, empty where the code has \<^verbatim>\<open>nil\<close>.
\<close>

record Calculation =
  ID :: int
  StatementFileName :: string
  Number :: string
  Product :: product
  Account :: Account
  ExchangeRate :: decimal
  MonthlyAverageIncome :: decimal
  MonthlyNetIncome :: decimal
  TotalOtherIncome :: decimal
  TotalBasicSalary :: decimal
  TotalIncome :: decimal
  PeriodInMonth :: decimal
  StartedAt :: Time
  EndedAt :: Time
  Status :: status
  CreatedBy :: string
  UpdatedBy :: string
  CreatedAt :: Time
  UpdatedAt :: Time
  SalaryBreakdown :: SalaryBreakdown
  AllowanceBreakdown :: AllowanceBreakdown
  CommissionBreakdown :: CommissionBreakdown
  Source :: Source

text \<open>
  \<^verbatim>\<open>statCal.Transactions\<close> is a Go map from a label (a month, or the title of an allowance)
  to a list of transactions. The code reads it with \<^verbatim>\<open>range\<close>, in an order Go does not
  fix, so the model is an association list with one entry for each key, read in the order
  of first insertion. \<open>mapAppend m k xs\<close> is \<^verbatim>\<open>m[k] = append(m[k], xs...)\<close>.
  \<^verbatim>\<open>AverageMonth\<close> is only looked up; it is a map, empty where the code has \<^verbatim>\<open>nil\<close>.
\<close>

fun mapAppend :: "('k \<times> 'a list) list \<Rightarrow> 'k \<Rightarrow> 'a list \<Rightarrow> ('k \<times> 'a list) list" where
  "mapAppend [] k xs = [(k, xs)]"
| "mapAppend ((k', ys) # m) k xs =
     (if k' = k then (k', ys @ xs) # m else (k', ys) # mapAppend m k xs)"

record statCal =
  Transactions :: "(string \<times> Transaction list) list"
  Monthly :: "decimal list"
  Total :: decimal
  AverageMonth :: "string \<rightharpoonup> decimal"

type_synonym statMap = "string \<rightharpoonup> statCal"

subsection \<open>Minima and sums\<close>

definition findMinAmountFromMonthlySalaries :: "MonthlySalary list \<Rightarrow> decimal" where
  "findMinAmountFromMonthlySalaries ms =
     (case ms of [] \<Rightarrow> 0
      | m0 # _ \<Rightarrow> fold (\<lambda>m least. if ms_Total m < least then ms_Total m else least) ms (ms_Total m0))"

definition findMinAmount :: "decimal list \<Rightarrow> decimal" where
  "findMinAmount amounts =
     (case amounts of [] \<Rightarrow> 0
      | a0 # _ \<Rightarrow> fold (\<lambda>amount least. if amount < least then amount else least) amounts a0)"

definition findMinFromTransactions :: "Transaction list \<Rightarrow> decimal" where
  "findMinFromTransactions ts =
     (case ts of [] \<Rightarrow> 0
      | t0 # _ \<Rightarrow> fold (\<lambda>t least. if Amount t < least then Amount t else least) ts (Amount t0))"

definition sumAmounts :: "decimal list \<Rightarrow> decimal" where
  "sumAmounts amounts = fold (\<lambda>amount s. s + amount) amounts 0"

definition sumTransactions :: "Transaction list \<Rightarrow> decimal" where
  "sumTransactions ts = fold (\<lambda>t s. s + Amount t) ts 0"

subsection \<open>The formula engine\<close>

text \<open>
  Every function that reaches a \<^verbatim>\<open>Div\<close> returns an option: \<open>None\<close> is the panic of
  a division by zero, and \<open>do\<close> passes it on as the panic unwinds the callers.
\<close>

definition totalIncome :: "statMap \<Rightarrow> product \<Rightarrow> decimal" where
  "totalIncome s product =
     (if product = ProductSA then
        (case s (source_String SourceSalary) of
           None \<Rightarrow> 0
         | Some raw \<Rightarrow>
             fold (\<lambda>(month, tx) total. total + findMinFromTransactions tx) (Transactions raw) 0)
      else if product = ProductPL \<or> product = ProductSF then
        (case s (source_String SourceSalary) of None \<Rightarrow> 0 | Some raw \<Rightarrow> Total raw)
      else 0)"

definition basicSalaryFromInterview :: "statMap \<Rightarrow> decimal" where
  "basicSalaryFromInterview s =
     (case s (source_String SourceBasicSalaryInterview) of None \<Rightarrow> 0 | Some raw \<Rightarrow> Total raw)"

definition toListMonthlySalaries :: "stdlib \<Rightarrow> statMap \<Rightarrow> SalaryBreakdown" where
  "toListMonthlySalaries L s =
     (case s (source_String SourceSalary) of
        None \<Rightarrow> \<lparr>MonthlySalaries = [], BasicSalary = 0, sb_Total = 0\<rparr>
      | Some raw \<Rightarrow>
          \<lparr>MonthlySalaries =
             sortSlice (\<lambda>a b. Before (monthTime L (ms_Month a)) (monthTime L (ms_Month b)))
               (map (\<lambda>(month, tx).
                      \<lparr>ms_Month = month, TimesReceived = of_nat (length tx),
                       ms_Transactions = tx, ms_Total = sumTransactions tx\<rparr>)
                  (filter (\<lambda>(month, tx). tx \<noteq> []) (Transactions raw))),
           BasicSalary = findMinAmount (Monthly raw),
           sb_Total = Total raw\<rparr>)"

definition toListCommissions :: "stdlib \<Rightarrow> statMap \<Rightarrow> decimal \<Rightarrow> CommissionBreakdown option" where
  "toListCommissions L s period =
     (case s (source_String SourceCommission) of
        None \<Rightarrow> Some \<lparr>Commissions = [], cb_MonthlyAverage = 0, cb_Total = 0\<rparr>
      | Some raw \<Rightarrow>
          do {
            monthlyAverage \<leftarrow> (if period \<noteq> 0 then decimal_Div (Total raw) period else Some 0);
            Some \<lparr>Commissions =
                    sortSlice (\<lambda>a b. Before (monthTime L (co_Month a)) (monthTime L (co_Month b)))
                      (map (\<lambda>(month, tx).
                             \<lparr>co_Month = month, co_Transactions = tx,
                              co_Total = sumTransactions tx\<rparr>)
                         (filter (\<lambda>(month, tx). tx \<noteq> []) (Transactions raw))),
                  cb_MonthlyAverage = monthlyAverage,
                  cb_Total = Total raw\<rparr>
          })"

text \<open>
  The loop of \<^verbatim>\<open>toListAllowances\<close>. The variable \<^verbatim>\<open>months\<close> is declared before the loop
  with the value 12 and keeps the divisor of the last title that had one. The division
  \<^verbatim>\<open>amount.Div(months)\<close> has no guard.
\<close>

fun allowancesLoop ::
  "(string \<rightharpoonup> decimal) \<Rightarrow> (string \<times> Transaction list) list \<Rightarrow> decimal \<Rightarrow> Allowance list
     \<Rightarrow> decimal \<Rightarrow> (Allowance list \<times> decimal) option" where
  "allowancesLoop am [] months allowances totalAllowance = Some (allowances, totalAllowance)"
| "allowancesLoop am ((title, tx) # rest) months allowances totalAllowance =
     (if tx = [] then allowancesLoop am rest months allowances totalAllowance
      else
        (let months' = (case am title of Some m \<Rightarrow> m | None \<Rightarrow> months);
             amount = sumTransactions tx
         in case decimal_Div amount months' of
              None \<Rightarrow> None
            | Some average \<Rightarrow>
                allowancesLoop am rest months'
                  (allowances @
                     [\<lparr>Title = title, Months = months', al_MonthlyAverage = average,
                       al_Transactions = tx, al_Total = amount\<rparr>])
                  (totalAllowance + average)))"

definition toListAllowances :: "statMap \<Rightarrow> AllowanceBreakdown option" where
  "toListAllowances s =
     (case s (source_String SourceAllowance) of
        None \<Rightarrow> Some \<lparr>Allowances = [], ab_Total = 0\<rparr>
      | Some raw \<Rightarrow>
          (case allowancesLoop (AverageMonth raw) (Transactions raw) 12 [] 0 of
             None \<Rightarrow> None
           | Some (allowances, totalAllowance) \<Rightarrow>
               Some \<lparr>Allowances = allowances, ab_Total = totalAllowance\<rparr>))"

definition basicSalary :: "stdlib \<Rightarrow> statMap \<Rightarrow> product \<Rightarrow> decimal \<Rightarrow> decimal option" where
  "basicSalary L s product period =
     (if product = ProductSA then
        (if period = 0 then Some 0
         else (let total = totalIncome s ProductSA
               in if total = 0 then Some 0 else decimal_Div total period))
      else if product = ProductPL \<or> product = ProductSF then
        Some (findMinAmountFromMonthlySalaries (MonthlySalaries (toListMonthlySalaries L s)))
      else Some 0)"

definition totalBasicSalary :: "stdlib \<Rightarrow> statMap \<Rightarrow> product \<Rightarrow> decimal \<Rightarrow> decimal option" where
  "totalBasicSalary L s product period =
     (if period = 0 then Some 0
      else if product = ProductSA then
        (let total = totalIncome s ProductSA
         in if total = 0 then Some 0 else decimal_Div total period)
      else if product = ProductPL \<or> product = ProductSF then
        do { b \<leftarrow> basicSalary L s product period; Some (b * period) }
      else Some 0)"

definition totalOtherIncome :: "stdlib \<Rightarrow> statMap \<Rightarrow> decimal \<Rightarrow> decimal option" where
  "totalOtherIncome L s period =
     (if period = 0 then Some 0
      else do {
        tb \<leftarrow> totalBasicSalary L s ProductPL period;
        let rest = totalIncome s ProductPL - tb;
        Some (if rest < 0 then 0 else rest)
      })"

definition averageOtherIncome :: "stdlib \<Rightarrow> statMap \<Rightarrow> decimal \<Rightarrow> decimal option" where
  "averageOtherIncome L s period =
     (if period = 0 then Some 0
      else do {
        total \<leftarrow> totalOtherIncome L s period;
        if total = 0 then Some 0 else decimal_Div total period
      })"

definition averageCommission :: "stdlib \<Rightarrow> statMap \<Rightarrow> decimal \<Rightarrow> decimal option" where
  "averageCommission L s period =
     do { cb \<leftarrow> toListCommissions L s period; Some (cb_MonthlyAverage cb) }"

definition averageAllowance :: "statMap \<Rightarrow> decimal \<Rightarrow> decimal option" where
  "averageAllowance s period = do { ab \<leftarrow> toListAllowances s; Some (ab_Total ab) }"

text \<open>\<^verbatim>\<open>decimal.NewFromFloat(0.8)\<close> is the decimal 0.8.\<close>

definition averageOtherIncomeIn80Percent :: "stdlib \<Rightarrow> statMap \<Rightarrow> decimal \<Rightarrow> decimal option" where
  "averageOtherIncomeIn80Percent L s period =
     do {
       other \<leftarrow> averageOtherIncome L s period;
       c \<leftarrow> averageCommission L s period;
       a \<leftarrow> averageAllowance s period;
       Some ((other + c + a) * (8 / 10))
     }"

definition averageMonthlyIncome :: "stdlib \<Rightarrow> statMap \<Rightarrow> product \<Rightarrow> decimal \<Rightarrow> decimal option" where
  "averageMonthlyIncome L s product period =
     (if product = ProductSA then
        do {
          basic \<leftarrow> basicSalary L s ProductSA period;
          let interview = basicSalaryFromInterview s;
          a \<leftarrow> averageAllowance s period;
          c \<leftarrow> averageCommission L s period;
          if interview > 0 \<and> interview < basic then Some (interview + a + c)
          else Some (basic + a + c)
        }
      else if product = ProductPL \<or> product = ProductSF then
        do {
          otherIn80Percent \<leftarrow> averageOtherIncomeIn80Percent L s period;
          basic \<leftarrow> basicSalary L s product period;
          let interview = basicSalaryFromInterview s;
          if interview > 0 \<and> interview < basic then Some (interview + otherIn80Percent)
          else Some (basic + otherIn80Percent)
        }
      else Some 0)"

definition netIncomeMonthly ::
  "stdlib \<Rightarrow> statMap \<Rightarrow> product \<Rightarrow> decimal \<Rightarrow> decimal \<Rightarrow> decimal option" where
  "netIncomeMonthly L s product exchangeRate period =
     (if period = 0 then Some 0
      else do {
        monthlyIncome \<leftarrow> averageMonthlyIncome L s product period;
        if monthlyIncome = 0 then Some 0 else Some (monthlyIncome * exchangeRate)
      })"

definition newSourceIncome :: "stdlib \<Rightarrow> statMap \<Rightarrow> product \<Rightarrow> decimal \<Rightarrow> Source option" where
  "newSourceIncome L m product period =
     do {
       ab \<leftarrow> toListAllowances m;
       aa \<leftarrow> averageAllowance m period;
       cb \<leftarrow> toListCommissions L m period;
       ac \<leftarrow> averageCommission L m period;
       tb \<leftarrow> totalBasicSalary L m product period;
       b \<leftarrow> basicSalary L m product period;
       Some \<lparr>src_BasicSalary = \<lparr>bd_MonthlyAverage = b, bd_Total = tb\<rparr>,
             src_Allowance = \<lparr>bd_MonthlyAverage = aa, bd_Total = ab_Total ab\<rparr>,
             src_Commission = \<lparr>bd_MonthlyAverage = ac, bd_Total = cb_Total cb\<rparr>,
             src_Other = \<lparr>bd_MonthlyAverage = 0, bd_Total = 0\<rparr>\<rparr>
     }"

subsection \<open>The calculation and its life cycle\<close>

definition newCalculation :: "string \<Rightarrow> Time \<Rightarrow> string \<Rightarrow> string \<Rightarrow> product \<Rightarrow> Calculation" where
  "newCalculation by now number statementFileName product =
     \<lparr>ID = 0, StatementFileName = statementFileName, Number = number, Product = product,
      Account = \<lparr>acc_Number = '''', DisplayName = '''', Currency = ''''\<rparr>,
      ExchangeRate = 1, MonthlyAverageIncome = 0, MonthlyNetIncome = 0, TotalOtherIncome = 0,
      TotalBasicSalary = 0, TotalIncome = 0, PeriodInMonth = 0,
      StartedAt = zeroTime, EndedAt = zeroTime, Status = StatusPending,
      CreatedBy = by, UpdatedBy = by, CreatedAt = now, UpdatedAt = now,
      SalaryBreakdown = \<lparr>MonthlySalaries = [], BasicSalary = 0, sb_Total = 0\<rparr>,
      AllowanceBreakdown = \<lparr>Allowances = [], ab_Total = 0\<rparr>,
      CommissionBreakdown = \<lparr>Commissions = [], cb_MonthlyAverage = 0, cb_Total = 0\<rparr>,
      Source = \<lparr>src_BasicSalary = \<lparr>bd_MonthlyAverage = 0, bd_Total = 0\<rparr>,
                src_Allowance = \<lparr>bd_MonthlyAverage = 0, bd_Total = 0\<rparr>,
                src_Commission = \<lparr>bd_MonthlyAverage = 0, bd_Total = 0\<rparr>,
                src_Other = \<lparr>bd_MonthlyAverage = 0, bd_Total = 0\<rparr>\<rparr>\<rparr>"

definition populate ::
  "stdlib \<Rightarrow> Calculation \<Rightarrow> product \<Rightarrow> decimal \<Rightarrow> decimal \<Rightarrow> statMap \<Rightarrow> Calculation option" where
  "populate L c product period exchangeRate incomes =
     do {
       src \<leftarrow> newSourceIncome L incomes product period;
       ab \<leftarrow> toListAllowances incomes;
       cb \<leftarrow> toListCommissions L incomes period;
       tb \<leftarrow> totalBasicSalary L incomes product period;
       toi \<leftarrow> totalOtherIncome L incomes period;
       mai \<leftarrow> averageMonthlyIncome L incomes product period;
       mni \<leftarrow> netIncomeMonthly L incomes product exchangeRate period;
       Some (c\<lparr>Source := src,
               AllowanceBreakdown := ab,
               CommissionBreakdown := cb,
               SalaryBreakdown := toListMonthlySalaries L incomes,
               PeriodInMonth := period,
               TotalBasicSalary := tb,
               TotalIncome := totalIncome incomes product,
               TotalOtherIncome := toi,
               MonthlyAverageIncome := mai,
               MonthlyNetIncome := mni,
               ExchangeRate := exchangeRate\<rparr>)
     }"

record RecalculateReq =
  rq_Number :: string
  BasicSalaryFromInterview :: decimal
  rq_MonthlySalaries :: "MonthlySalary list"
  rq_Allowances :: "Allowance list"
  rq_Commissions :: "Commission list"

definition emptyStatCal :: statCal where
  "emptyStatCal = \<lparr>Transactions = [], Monthly = [], Total = 0, AverageMonth = Map.empty\<rparr>"

text \<open>
  The three loops of \<^verbatim>\<open>toStateMap\<close>. Each fills the maps and the list of one
  \<^verbatim>\<open>statCal\<close>; the total is the sum of the list, taken after the loop.
\<close>

fun allowanceStat :: "Allowance list \<Rightarrow> statCal \<Rightarrow> statCal" where
  "allowanceStat [] st = st"
| "allowanceStat (a # rest) st =
     (if al_Transactions a = [] then allowanceStat rest st
      else allowanceStat rest
             (st\<lparr>Transactions := mapAppend (Transactions st) (Title a) (al_Transactions a),
                 Monthly := Monthly st @ [al_Total a],
                 AverageMonth := (AverageMonth st)(Title a \<mapsto> Months a)\<rparr>))"

fun commissionStat :: "Commission list \<Rightarrow> statCal \<Rightarrow> statCal" where
  "commissionStat [] st = st"
| "commissionStat (c # rest) st =
     (if co_Transactions c = [] then commissionStat rest st
      else commissionStat rest
             (st\<lparr>Transactions := mapAppend (Transactions st) (co_Month c) (co_Transactions c),
                 Monthly := Monthly st @ [co_Total c]\<rparr>))"

fun salaryStat :: "MonthlySalary list \<Rightarrow> statCal \<Rightarrow> statCal" where
  "salaryStat [] st = st"
| "salaryStat (s # rest) st =
     (if ms_Transactions s = [] then salaryStat rest st
      else salaryStat rest
             (st\<lparr>Transactions := mapAppend (Transactions st) (ms_Month s) (ms_Transactions s),
                 Monthly := Monthly st @ map Amount (ms_Transactions s)\<rparr>))"

definition withTotal :: "statCal \<Rightarrow> statCal" where
  "withTotal st = st\<lparr>Total := sumAmounts (Monthly st)\<rparr>"

definition toStateMap :: "Calculation \<Rightarrow> statMap" where
  "toStateMap c =
     [source_String SourceAllowance \<mapsto>
        withTotal (allowanceStat (Allowances (AllowanceBreakdown c)) emptyStatCal),
      source_String SourceCommission \<mapsto>
        withTotal (commissionStat (Commissions (CommissionBreakdown c)) emptyStatCal),
      source_String SourceSalary \<mapsto>
        withTotal (salaryStat (MonthlySalaries (SalaryBreakdown c)) emptyStatCal)]"

definition newSalaryBreakdown :: "MonthlySalary list \<Rightarrow> SalaryBreakdown" where
  "newSalaryBreakdown months = \<lparr>MonthlySalaries = months, BasicSalary = 0, sb_Total = 0\<rparr>"

definition newAllowanceBreakdown :: "Allowance list \<Rightarrow> AllowanceBreakdown" where
  "newAllowanceBreakdown allowances = \<lparr>Allowances = allowances, ab_Total = 0\<rparr>"

definition newCommissionBreakdown :: "Commission list \<Rightarrow> CommissionBreakdown" where
  "newCommissionBreakdown commissions =
     \<lparr>Commissions = commissions, cb_MonthlyAverage = 0, cb_Total = 0\<rparr>"

text \<open>
  \<^verbatim>\<open>ReCalculate\<close> reads the three lists of the request. It does not read the field
  \<^verbatim>\<open>BasicSalaryFromInterview\<close> of the request.
\<close>

definition ReCalculate ::
  "stdlib \<Rightarrow> string \<Rightarrow> Time \<Rightarrow> Calculation \<Rightarrow> RecalculateReq \<Rightarrow> Calculation option" where
  "ReCalculate L by now c req =
     (let c1 = c\<lparr>SalaryBreakdown := newSalaryBreakdown (rq_MonthlySalaries req),
                 AllowanceBreakdown := newAllowanceBreakdown (rq_Allowances req),
                 CommissionBreakdown := newCommissionBreakdown (rq_Commissions req)\<rparr>;
          mapCal = toStateMap c1;
          c2 = c1\<lparr>UpdatedAt := now, UpdatedBy := by\<rparr>
      in populate L c2 (Product c2) (PeriodInMonth c2) (ExchangeRate c2) mapCal)"

definition Complete :: "string \<Rightarrow> Time \<Rightarrow> Calculation \<Rightarrow> Calculation" where
  "Complete by now c = c\<lparr>Status := StatusCompleted, UpdatedAt := now, UpdatedBy := by\<rparr>"

definition IsCompleted :: "Calculation \<Rightarrow> bool" where
  "IsCompleted c = (Status c = StatusCompleted)"

subsection \<open>Reading a statement\<close>

definition countMonth :: "Time \<Rightarrow> Time \<Rightarrow> decimal" where
  "countMonth from to =
     (if Before to from then 0
      else (let yearDiff = Year to - Year from; monthDiff = Month to - Month from
            in of_int (yearDiff * 12 + monthDiff)))"

definition extractAccount :: "string \<Rightarrow> string" where
  "extractAccount raw =
     (let r = Split (TrimSpace raw) '' : ''
      in if length r \<noteq> 2 then '''' else TrimSpace (r ! 1))"

text \<open>
  The separator of the two dates is the Lao word between two spaces, six bytes in UTF-8.
  \<^verbatim>\<open>extractPeriod\<close> reads \<^verbatim>\<open>period[1]\<close> without looking at the length of \<^verbatim>\<open>period\<close>: when
  the first date parses and there is no separator, the index is out of range and the
  code panics (\<open>None\<close>).
\<close>

definition periodSeparator :: string where
  "periodSeparator =
     [CHR '' '', CHR 0xE0, CHR 0xBA, CHR 0xAB, CHR 0xE0, CHR 0xBA, CHR 0xB2, CHR '' '']"

definition extractPeriod :: "stdlib \<Rightarrow> string \<Rightarrow> (Time \<times> Time) option" where
  "extractPeriod L raw =
     (let r = Split (TrimSpace raw) '' : ''
      in if length r \<noteq> 2 then Some (zeroTime, zeroTime)
         else (let period = Split (r ! 1) periodSeparator
               in case ParseDate L (period ! 0) of
                    None \<Rightarrow> Some (zeroTime, zeroTime)
                  | Some from \<Rightarrow>
                      (if length period < 2 then None
                       else (case ParseDate L (period ! 1) of
                               None \<Rightarrow> Some (from, zeroTime)
                             | Some to \<Rightarrow> Some (from, to)))))"

definition getMonthWithYYYYMM :: "stdlib \<Rightarrow> string \<Rightarrow> string" where
  "getMonthWithYYYYMM L s = (case ParseDate L s of None \<Rightarrow> '''' | Some m \<Rightarrow> FormatMonth L m)"

definition statOf :: "statMap \<Rightarrow> string \<Rightarrow> statCal" where
  "statOf incomes key = (case incomes key of None \<Rightarrow> emptyStatCal | Some st \<Rightarrow> st)"

text \<open>
  The \<^verbatim>\<open>switch\<close> on the category of a matched row. The entry of a category is created
  empty when the category is new (\<open>statOf\<close>). A salary or a commission goes to the bucket
  of its month, an allowance to the bucket of the matched word, with the divisor 12. Any
  other category leaves the map as it is.
\<close>

fun addIncome ::
  "statMap \<Rightarrow> source \<Rightarrow> string \<Rightarrow> string \<Rightarrow> decimal \<Rightarrow> Transaction \<Rightarrow> statMap" where
  "addIncome incomes SourceSalary month title incomeAmount transaction =
     (let keySy = source_String SourceSalary; st = statOf incomes keySy
      in incomes(keySy \<mapsto>
           st\<lparr>Monthly := Monthly st @ [incomeAmount],
              Total := Total st + incomeAmount,
              Transactions := mapAppend (Transactions st) month [transaction]\<rparr>))"
| "addIncome incomes SourceCommission month title incomeAmount transaction =
     (let keyCom = source_String SourceCommission; st = statOf incomes keyCom
      in incomes(keyCom \<mapsto>
           st\<lparr>Monthly := Monthly st @ [incomeAmount],
              Total := Total st + incomeAmount,
              Transactions := mapAppend (Transactions st) month [transaction]\<rparr>))"
| "addIncome incomes SourceAllowance month title incomeAmount transaction =
     (let keyAw = source_String SourceAllowance; st = statOf incomes keyAw
      in incomes(keyAw \<mapsto>
           st\<lparr>Monthly := Monthly st @ [incomeAmount],
              Total := Total st + incomeAmount,
              AverageMonth := (AverageMonth st)(title \<mapsto> 12),
              Transactions := mapAppend (Transactions st) title [transaction]\<rparr>))"
| "addIncome incomes category month title incomeAmount transaction = incomes"

text \<open>
  The body of the loop over the rows of the sheet: each \<^verbatim>\<open>continue\<close> returns the map as
  it is. A row reaches the \<^verbatim>\<open>switch\<close> only when \<^verbatim>\<open>matchWordlists\<close> has matched its memo.
\<close>

definition ingestRow :: "stdlib \<Rightarrow> Wordlist list \<Rightarrow> string list \<Rightarrow> statMap \<Rightarrow> statMap" where
  "ingestRow L wordlists row incomes =
     (if length row \<le> 4 then incomes
      else
        (case NewFromString L (filter (\<lambda>c. c \<noteq> CHR '','') (row ! 4)) of
           None \<Rightarrow> incomes
         | Some incomeAmount \<Rightarrow>
             (if \<not> incomeAmount > 0 then incomes
              else if length (row ! 2) = 0 then incomes
              else
                (case ParseDate L (row ! 0) of
                   None \<Rightarrow> incomes
                 | Some date \<Rightarrow>
                     (let month = getMonthWithYYYYMM L (row ! 0);
                          (category, title, matched) = matchWordlists L (row ! 2) wordlists
                      in if \<not> matched then incomes
                         else addIncome incomes category month title incomeAmount
                                \<lparr>Date = date, BillNumber = row ! 1, Noted = row ! 2,
                                 Amount = incomeAmount\<rparr>)))))"

text \<open>
  A row is a classified transaction when it passes every \<^verbatim>\<open>continue\<close> of the loop: it
  has more than four cells, its fifth cell is an amount above zero, its third cell, the
  memo, is not empty, its first cell is a date, and \<^verbatim>\<open>matchWordlists\<close> matches the memo.
\<close>

definition isClassified :: "stdlib \<Rightarrow> Wordlist list \<Rightarrow> string list \<Rightarrow> bool" where
  "isClassified L wordlists row =
     (if length row \<le> 4 then False
      else
        (case NewFromString L (filter (\<lambda>c. c \<noteq> CHR '','') (row ! 4)) of
           None \<Rightarrow> False
         | Some incomeAmount \<Rightarrow>
             (if \<not> incomeAmount > 0 then False
              else if length (row ! 2) = 0 then False
              else
                (case ParseDate L (row ! 0) of
                   None \<Rightarrow> False
                 | Some date \<Rightarrow> snd (snd (matchWordlists L (row ! 2) wordlists))))))"

definition ingestRows :: "stdlib \<Rightarrow> Wordlist list \<Rightarrow> string list list \<Rightarrow> statMap" where
  "ingestRows L wordlists rows = fold (ingestRow L wordlists) rows Map.empty"

subsection \<open>The service\<close>

text \<open>
  What a call of the service comes to: it returns a calculation, it returns an error, or
  it panics. \<open>InvalidStatement\<close> is the status \<^verbatim>\<open>FailedPrecondition\<close> with the message
  \<^verbatim>\<open>"The statement file is not valid. ..."\<close>, \<open>AlreadyCompleted\<close> the same status with the
  message \<^verbatim>\<open>"This calculation is already completed and cannot be recalculated"\<close>.
\<close>

datatype rpc_error =
  InvalidArgument | AlreadyExists | PermissionDenied | InvalidStatement | AlreadyCompleted

datatype outcome = Returned Calculation | Failed rpc_error | Panicked

text \<open>
  The database, the file store and the currency service are read through an environment:
  \<^item> \<open>calculationExists\<close> is \<^verbatim>\<open>isCalculationExists\<close>: is there a row with this number;
  \<^item> \<open>calculations\<close> is the query of \<^verbatim>\<open>getCalculation\<close> for a number that is not empty,
    \<open>None\<close> when it finds no row;
  \<^item> \<open>statementFiles\<close> is \<^verbatim>\<open>getStatementFileByName\<close>, giving the location of the file;
  \<^item> \<open>workbooks\<close> is \<^verbatim>\<open>excelize.OpenFile\<close> with the sheet \<^verbatim>\<open>"Table 1"\<close>, \<open>None\<close> when the
    file does not open or has no such sheet;
  \<^item> \<open>currencies\<close> is \<^verbatim>\<open>GetCurrencyByCode\<close>, giving the exchange rate;
  \<^item> \<open>listedWordlists\<close> is \<^verbatim>\<open>listWordlists\<close> without limit;
  \<^item> \<open>insertID\<close> is the identity the database gives to an inserted row.
  A write to the database is the second component of the result: \<open>Some c\<close> when
  \<^verbatim>\<open>saveCalculationIncome\<close> is called with \<open>c\<close>, \<open>None\<close> when it is not called. Failures of
  the database itself are outside the model.
\<close>

record sheet =
  cellA7 :: string
  cellA9 :: string
  cellA10 :: string
  cellA11 :: string
  sheetRows :: "string list list"

record env =
  calculationExists :: "string \<Rightarrow> bool"
  calculations :: "string \<rightharpoonup> Calculation"
  statementFiles :: "string \<rightharpoonup> string"
  workbooks :: "string \<rightharpoonup> sheet"
  currencies :: "string \<rightharpoonup> decimal"
  listedWordlists :: "Wordlist list"
  insertID :: int

record CalculateReq =
  cr_Number :: string
  cr_Product :: product
  cr_StatementFileName :: string

definition Validate :: "CalculateReq \<Rightarrow> bool" where
  "Validate r = (cr_Number r \<noteq> '''' \<and> cr_Product r \<noteq> ProductUnSpecified
                  \<and> cr_StatementFileName r \<noteq> '''')"

definition getCalculation :: "env \<Rightarrow> string \<Rightarrow> Calculation option" where
  "getCalculation E number = (if number = '''' then None else calculations E number)"

text \<open>
  \<^verbatim>\<open>saveCalculationIncome\<close> updates the rows with the number of the calculation and, when
  there is none, inserts a row and stores its identity in the calculation.
\<close>

definition saveCalculationIncome :: "env \<Rightarrow> Calculation \<Rightarrow> Calculation" where
  "saveCalculationIncome E c = (if calculationExists E (Number c) then c else c\<lparr>ID := insertID E\<rparr>)"

text \<open>
  \<^verbatim>\<open>calculateIncomeFromStatementFile\<close>: \<open>None\<close> is a panic, \<open>Some None\<close> a returned error
  (the caller turns every error into the same status) and \<open>Some (Some c)\<close> the
  calculation.
\<close>

definition calculateIncomeFromStatementFile ::
  "stdlib \<Rightarrow> env \<Rightarrow> string \<Rightarrow> Time \<Rightarrow> CalculateReq \<Rightarrow> Wordlist list \<Rightarrow> string
     \<Rightarrow> Calculation option option" where
  "calculateIncomeFromStatementFile L E by now cal wordlists location =
     (let calculation = newCalculation by now (cr_Number cal) (cr_StatementFileName cal)
                          (cr_Product cal)
      in case workbooks E location of
           None \<Rightarrow> Some None
         | Some f \<Rightarrow>
             (case extractPeriod L (cellA7 f) of
                None \<Rightarrow> None
              | Some (from, to) \<Rightarrow>
                  (let account = \<lparr>acc_Number = extractAccount (cellA9 f),
                                  DisplayName = extractAccount (cellA10 f),
                                  Currency = extractAccount (cellA11 f)\<rparr>;
                       calculation = calculation\<lparr>StartedAt := from, EndedAt := to,
                                                 Account := account\<rparr>
                   in if length (acc_Number account) = 0 \<or> length (DisplayName account) = 0
                         \<or> length (TrimSpace (Currency account)) \<noteq> 3
                      then Some None
                      else
                        (case currencies E (Currency account) of
                           None \<Rightarrow> Some None
                         | Some exchangeRate \<Rightarrow>
                             (let incomes = ingestRows L wordlists (sheetRows f);
                                  period = countMonth from to
                              in case populate L calculation (cr_Product cal) period
                                        exchangeRate incomes of
                                   None \<Rightarrow> None
                                 | Some c \<Rightarrow> Some (Some c))))))"

definition CalculateIncome ::
  "stdlib \<Rightarrow> env \<Rightarrow> string \<Rightarrow> Time \<Rightarrow> CalculateReq \<Rightarrow> outcome \<times> Calculation option" where
  "CalculateIncome L E by now req =
     (if \<not> Validate req then (Failed InvalidArgument, None)
      else if calculationExists E (cr_Number req) then (Failed AlreadyExists, None)
      else
        (case statementFiles E (cr_StatementFileName req) of
           None \<Rightarrow> (Failed InvalidArgument, None)
         | Some location \<Rightarrow>
             (case calculateIncomeFromStatementFile L E by now req (listedWordlists E)
                     location of
                None \<Rightarrow> (Panicked, None)
              | Some None \<Rightarrow> (Failed InvalidStatement, None)
              | Some (Some calculation) \<Rightarrow>
                  (let saved = saveCalculationIncome E calculation
                   in (Returned saved, Some saved)))))"

definition ReCalculateIncome ::
  "stdlib \<Rightarrow> env \<Rightarrow> string \<Rightarrow> Time \<Rightarrow> RecalculateReq \<Rightarrow> outcome \<times> Calculation option" where
  "ReCalculateIncome L E by now req =
     (case getCalculation E (rq_Number req) of
        None \<Rightarrow> (Failed PermissionDenied, None)
      | Some calculation \<Rightarrow>
          (if IsCompleted calculation then (Failed AlreadyCompleted, None)
           else
             (case ReCalculate L by now calculation req of
                None \<Rightarrow> (Panicked, None)
              | Some c \<Rightarrow>
                  (let saved = saveCalculationIncome E c in (Returned saved, Some saved)))))"

definition CompleteCalculation ::
  "env \<Rightarrow> string \<Rightarrow> Time \<Rightarrow> string \<Rightarrow> outcome \<times> Calculation option" where
  "CompleteCalculation E by now number =
     (case getCalculation E number of
        None \<Rightarrow> (Failed PermissionDenied, None)
      | Some calculation \<Rightarrow>
          (if IsCompleted calculation then (Returned calculation, None)
           else (let saved = saveCalculationIncome E (Complete by now calculation)
                 in (Returned saved, Some saved))))"

subsection \<open>An invariant of the aggregation\<close>

text \<open>
  What the two builders of a \<^verbatim>\<open>statMap\<close> keep true of the salary entry: its total is the
  sum of the amounts of all the transactions in its buckets, and no bucket is empty.
\<close>

definition salaryInvariant :: "statMap \<Rightarrow> bool" where
  "salaryInvariant s =
     (case s (source_String SourceSalary) of
        None \<Rightarrow> True
      | Some st \<Rightarrow>
          Total st = sum_list (map Amount (concat (map snd (Transactions st))))
          \<and> (\<forall>(month, tx)\<in>set (Transactions st). tx \<noteq> []))"

subsection \<open>An instance of the library for the examples\<close>

text \<open>
  The examples below need a library to run. This one agrees with the Go libraries on the
  strings the examples use: an amount written with digits only, a date written
  \<^verbatim>\<open>dd/mm/yyyy\<close> and a label written as \<^verbatim>\<open>Format("January-2006")\<close> writes it. No theorem
  about the code depends on it.
\<close>

definition digitOf :: "char \<Rightarrow> int option" where
  "digitOf c =
     (let n = (of_char c :: int) in if 48 \<le> n \<and> n \<le> 57 then Some (n - 48) else None)"

fun readDigits :: "int \<Rightarrow> string \<Rightarrow> int option" where
  "readDigits acc [] = Some acc"
| "readDigits acc (c # cs) =
     (case digitOf c of None \<Rightarrow> None | Some d \<Rightarrow> readDigits (10 * acc + d) cs)"

definition readInt :: "string \<Rightarrow> int option" where
  "readInt s = (if s = [] then None else readDigits 0 s)"

definition monthNames :: "(int \<times> string) list" where
  "monthNames =
     [(1, ''January''), (2, ''February''), (3, ''March''), (4, ''April''), (5, ''May''),
      (6, ''June''), (7, ''July''), (8, ''August''), (9, ''September''), (10, ''October''),
      (11, ''November''), (12, ''December'')]"

definition exampleNewFromString :: "string \<Rightarrow> decimal option" where
  "exampleNewFromString s = map_option of_int (readInt s)"

definition exampleParseDate :: "string \<Rightarrow> Time option" where
  "exampleParseDate s =
     (case s of
        [d1, d2, s1, m1, m2, s2, y1, y2, y3, y4] \<Rightarrow>
          (if s1 = CHR ''/'' \<and> s2 = CHR ''/'' then
             (case (readInt [d1, d2], readInt [m1, m2], readInt [y1, y2, y3, y4]) of
                (Some d, Some m, Some y) \<Rightarrow>
                  if 1 \<le> m \<and> m \<le> 12 \<and> 1 \<le> d \<and> d \<le> 31
                  then Some \<lparr>Year = y, Month = m, Day = d\<rparr> else None
              | _ \<Rightarrow> None)
           else None)
      | _ \<Rightarrow> None)"

definition exampleFormatMonth :: "Time \<Rightarrow> string" where
  "exampleFormatMonth t =
     (case map_of monthNames (Month t) of None \<Rightarrow> [] | Some name \<Rightarrow> name) @ ''-''
       @ map (\<lambda>k. char_of (48 + Year t div k mod 10)) [1000, 100, 10, 1]"

definition exampleParseMonth :: "string \<Rightarrow> Time option" where
  "exampleParseMonth s =
     (case filter (\<lambda>(i, name). take (length name) s = name) monthNames of
        [] \<Rightarrow> None
      | (i, name) # _ \<Rightarrow>
          (case drop (length name) s of
             [c, y1, y2, y3, y4] \<Rightarrow>
               if c = CHR ''-''
               then map_option (\<lambda>y. \<lparr>Year = y, Month = i, Day = 1\<rparr>)
                      (readInt [y1, y2, y3, y4])
               else None
           | _ \<Rightarrow> None))"

text \<open>
  The case mappings of the examples know the letters \<open>A\<close> to \<open>Z\<close> only. They agree with
  \<^verbatim>\<open>strings.ToLower\<close> and \<^verbatim>\<open>strings.EqualFold\<close> on ASCII text and on text in UTF-8 of a
  script without case, such as Lao.
\<close>

definition toLowerChar :: "char \<Rightarrow> char" where
  "toLowerChar c =
     (let n = (of_char c :: int) in if 65 \<le> n \<and> n \<le> 90 then char_of (n + 32) else c)"

definition exampleToLower :: "string \<Rightarrow> string" where
  "exampleToLower s = map toLowerChar s"

definition exampleEqualFold :: "string \<Rightarrow> string \<Rightarrow> bool" where
  "exampleEqualFold s t = (map toLowerChar s = map toLowerChar t)"

definition exampleLib :: stdlib where
  "exampleLib =
     \<lparr>NewFromString = exampleNewFromString, ParseDate = exampleParseDate,
      FormatMonth = exampleFormatMonth, ParseMonth = exampleParseMonth,
      ToLower = exampleToLower, EqualFold = exampleEqualFold\<rparr>"

subsection \<open>Data of the examples\<close>

text \<open>
  A pending calculation for the product PL over a period of 3 months at the exchange rate
  1, as \<^verbatim>\<open>CalculateIncome\<close> leaves it in the database, and the environment that holds it
  under its number.
\<close>

definition examplePending :: Calculation where
  "examplePending =
     (newCalculation ''teller'' \<lparr>Year = 2024, Month = 4, Day = 2\<rparr> ''N-1'' ''s.xlsx''
        ProductPL)\<lparr>ID := 7, PeriodInMonth := 3\<rparr>"

definition exampleEnv :: env where
  "exampleEnv =
     \<lparr>calculationExists = (\<lambda>number. number = ''N-1''),
      calculations = [''N-1'' \<mapsto> examplePending],
      statementFiles = [''s.xlsx'' \<mapsto> ''/files/s.xlsx''],
      workbooks = Map.empty,
      currencies = [''LAK'' \<mapsto> 1],
      listedWordlists = [],
      insertID = 8\<rparr>"

text \<open>An income of a given amount on a day of 2024.\<close>

definition exampleTx :: "int \<Rightarrow> int \<Rightarrow> string \<Rightarrow> decimal \<Rightarrow> Transaction" where
  "exampleTx day month memo amount =
     \<lparr>Date = \<lparr>Year = 2024, Month = month, Day = day\<rparr>, BillNumber = ''B'', Noted = memo,
      Amount = amount\<rparr>"

text \<open>
  The salaries of a recalculation request: 1,000,000 in January, 1,200,000 in February and
  1,100,000 in March.
\<close>

definition exampleSalaries :: "MonthlySalary list" where
  "exampleSalaries =
     [\<lparr>ms_Month = ''January-2024'', TimesReceived = 1,
       ms_Transactions = [exampleTx 25 1 ''salary'' 1000000], ms_Total = 1000000\<rparr>,
      \<lparr>ms_Month = ''February-2024'', TimesReceived = 1,
       ms_Transactions = [exampleTx 25 2 ''salary'' 1200000], ms_Total = 1200000\<rparr>,
      \<lparr>ms_Month = ''March-2024'', TimesReceived = 1,
       ms_Transactions = [exampleTx 25 3 ''salary'' 1100000], ms_Total = 1100000\<rparr>]"

text \<open>An allowance bucket with one transaction of 600,000 and a given divisor.\<close>

definition exampleAllowance :: "string \<Rightarrow> decimal \<Rightarrow> Allowance" where
  "exampleAllowance title months =
     \<lparr>Title = title, Months = months, al_MonthlyAverage = 0,
      al_Transactions = [exampleTx 5 2 title 600000], al_Total = 600000\<rparr>"

definition exampleRequest :: "decimal \<Rightarrow> Allowance list \<Rightarrow> RecalculateReq" where
  "exampleRequest interview allowances =
     \<lparr>rq_Number = ''N-1'', BasicSalaryFromInterview = interview,
      rq_MonthlySalaries = exampleSalaries, rq_Allowances = allowances, rq_Commissions = []\<rparr>"

text \<open>
  A statement from 1 January to 31 March 2024 with a complete header and one row, a cash
  deposit, and a wordlist that knows the word \<^verbatim>\<open>salary\<close> only: no row of the statement is
  classified. The environment holds the file of a given sheet and no calculation yet.
\<close>

definition exampleSheet :: sheet where
  "exampleSheet =
     \<lparr>cellA7 = ''Period : 01/01/2024'' @ periodSeparator @ ''31/03/2024'',
      cellA9 = ''Account No : 010-12-00-123456'',
      cellA10 = ''Account Name : MR SOMCHAI'',
      cellA11 = ''Currency : LAK'',
      sheetRows = [[''15/01/2024'', ''B1'', ''cash deposit'', '''', ''500,000'']]\<rparr>"

definition exampleStatementEnv :: "sheet \<Rightarrow> env" where
  "exampleStatementEnv f =
     \<lparr>calculationExists = (\<lambda>number. False),
      calculations = Map.empty,
      statementFiles = [''s.xlsx'' \<mapsto> ''/files/s.xlsx''],
      workbooks = [''/files/s.xlsx'' \<mapsto> f],
      currencies = [''LAK'' \<mapsto> 1],
      listedWordlists =
        [\<lparr>wl_ID = 1, Word = ''salary'', Category = SourceSalary, wl_CreatedBy = ''admin'',
          wl_CreatedAt = zeroTime\<rparr>],
      insertID = 8\<rparr>"

definition exampleCalculateReq :: CalculateReq where
  "exampleCalculateReq =
     \<lparr>cr_Number = ''N-2'', cr_Product = ProductPL, cr_StatementFileName = ''s.xlsx''\<rparr>"



section \<open>Properties\<close>

subsection \<open>The classifier\<close>




lemma matchLoop_Cons:
  "matchLoop L t (w # ws) =
     (if snd (snd (matchLoop L t [w])) then (Category w, TrimSpace (Word w), True)
      else matchLoop L t ws)"
  by (simp add: Let_def)

lemma matchLoop_first:
  "\<forall>v\<in>set pre. \<not> snd (snd (matchLoop L t [v])) \<Longrightarrow> snd (snd (matchLoop L t [w])) \<Longrightarrow>
   matchLoop L t (pre @ w # post) = (Category w, TrimSpace (Word w), True)"
proof (induction pre)
  case Nil
  then show ?case by (simp only: append_Nil) (subst matchLoop_Cons, simp del: matchLoop.simps)
next
  case (Cons p pre)
  then show ?case by (simp only: append_Cons) (subst matchLoop_Cons, simp del: matchLoop.simps)
qed

lemma matchLoop_none:
  "\<forall>v\<in>set ws. \<not> snd (snd (matchLoop L t [v])) \<Longrightarrow>
   matchLoop L t ws = (SourceUnSpecified, '''', False)"
proof (induction ws)
  case Nil
  then show ?case by simp
next
  case (Cons p pre)
  then show ?case by (subst matchLoop_Cons) (simp del: matchLoop.simps)
qed



text \<open>
  Trimming is idempotent: what \<open>dropRunes\<close> returns starts with none of the runes, and a
  text that starts with none of them keeps that when bytes are removed from its end.
\<close>

lemma dropRunes_done:
  "find (\<lambda>r. r \<noteq> [] \<and> take (length r) (dropRunes runes s) = r) runes = None"
proof (induction runes s rule: dropRunes.induct)
  case (1 runes s)
  show ?case
  proof (cases "find (\<lambda>r. r \<noteq> [] \<and> take (length r) s = r) runes")
    case None
    then have "dropRunes runes s = s" by (subst dropRunes.simps) simp
    then show ?thesis using None by simp
  next
    case (Some r)
    then have "dropRunes runes s = dropRunes runes (drop (length r) s)"
      by (subst dropRunes.simps) simp
    then show ?thesis using 1 [OF Some] by simp
  qed
qed

lemma dropRunes_id:
  "find (\<lambda>r. r \<noteq> [] \<and> take (length r) s = r) runes = None \<Longrightarrow> dropRunes runes s = s"
  by (subst dropRunes.simps) simp

lemma dropRunes_suffix: "\<exists>pre. s = pre @ dropRunes runes s"
proof (induction runes s rule: dropRunes.induct)
  case (1 runes s)
  show ?case
  proof (cases "find (\<lambda>r. r \<noteq> [] \<and> take (length r) s = r) runes")
    case None
    then have "dropRunes runes s = s" by (subst dropRunes.simps) simp
    then show ?thesis by simp
  next
    case (Some r)
    then have eq: "dropRunes runes s = dropRunes runes (drop (length r) s)"
      by (subst dropRunes.simps) simp
    obtain pre where "drop (length r) s = pre @ dropRunes runes (drop (length r) s)"
      using 1 [OF Some] by blast
    then have "s = (take (length r) s @ pre) @ dropRunes runes s"
      using eq by (metis append.assoc append_take_drop_id)
    then show ?thesis by blast
  qed
qed

lemma find_prefix_None:
  fixes x y :: string
  assumes "find (\<lambda>r. r \<noteq> [] \<and> take (length r) (x @ y) = r) runes = None"
  shows "find (\<lambda>r. r \<noteq> [] \<and> take (length r) x = r) runes = None"
proof -
  have "take (length r) (x @ y) = r" if "take (length r) x = r" for r :: string
  proof -
    have "length (take (length r) x) = length r" using that by simp
    then have "length r \<le> length x" by simp
    then show ?thesis using that by simp
  qed
  then have "\<not> (r \<noteq> [] \<and> take (length r) x = r)" if "r \<in> set runes" for r
    using assms that unfolding find_None_iff by blast
  then show ?thesis unfolding find_None_iff by blast
qed

lemma TrimRightSpace_prefix: "\<exists>post. TrimRightSpace s @ post = s"
proof -
  obtain pre where eq: "rev s = pre @ dropRunes (map rev spaceRunes) (rev s)"
    using dropRunes_suffix by blast
  have "rev (rev s) = rev (pre @ dropRunes (map rev spaceRunes) (rev s))"
    by (rule arg_cong [OF eq])
  then have "rev (dropRunes (map rev spaceRunes) (rev s)) @ rev pre = s"
    by (simp only: rev_rev_ident rev_append)
  then show ?thesis unfolding TrimRightSpace_def by (rule exI)
qed

lemma TrimRightSpace_idem: "TrimRightSpace (TrimRightSpace s) = TrimRightSpace s"
proof -
  have "dropRunes (map rev spaceRunes) (dropRunes (map rev spaceRunes) (rev s))
          = dropRunes (map rev spaceRunes) (rev s)"
    by (rule dropRunes_id [OF dropRunes_done])
  then show ?thesis unfolding TrimRightSpace_def by (simp only: rev_rev_ident)
qed

lemma TrimSpace_idem: "TrimSpace (TrimSpace s) = TrimSpace s"
proof -
  define l where "l = TrimLeftSpace s"
  have start: "find (\<lambda>r. r \<noteq> [] \<and> take (length r) l = r) spaceRunes = None"
    unfolding l_def TrimLeftSpace_def by (rule dropRunes_done)
  obtain post where eq: "TrimRightSpace l @ post = l" using TrimRightSpace_prefix by blast
  have "find (\<lambda>r. r \<noteq> [] \<and> take (length r) (TrimRightSpace l @ post) = r) spaceRunes = None"
    by (simp only: eq) (rule start)
  then have "find (\<lambda>r. r \<noteq> [] \<and> take (length r) (TrimRightSpace l) = r) spaceRunes = None"
    by (rule find_prefix_None)
  then have "TrimLeftSpace (TrimRightSpace l) = TrimRightSpace l"
    unfolding TrimLeftSpace_def by (rule dropRunes_id)
  then have "TrimRightSpace (TrimLeftSpace (TrimRightSpace l)) = TrimRightSpace l"
    by (simp only: TrimRightSpace_idem)
  then show ?thesis unfolding TrimSpace_def l_def .
qed

lemma set_dropRunes: "set (dropRunes runes s) \<subseteq> set s"
proof -
  obtain pre where eq: "s = pre @ dropRunes runes s" using dropRunes_suffix by blast
  have "set s = set (pre @ dropRunes runes s)" by (rule arg_cong [OF eq])
  then have "set s = set pre \<union> set (dropRunes runes s)" by (simp only: set_append)
  then show ?thesis by blast
qed

lemma set_TrimSpace: "set (TrimSpace s) \<subseteq> set s"
proof -
  have r: "set (TrimRightSpace x) \<subseteq> set x" for x
    unfolding TrimRightSpace_def using set_dropRunes [of "map rev spaceRunes" "rev x"] by simp
  have "set (TrimRightSpace (TrimLeftSpace s)) \<subseteq> set (TrimLeftSpace s)" by (rule r)
  also have "\<dots> \<subseteq> set s" unfolding TrimLeftSpace_def by (rule set_dropRunes)
  finally show ?thesis unfolding TrimSpace_def .
qed

lemma characterCount_ascii:
  "\<forall>c\<in>set s. (of_char c :: nat) < 128 \<Longrightarrow> characterCount s = length s"
  unfolding characterCount_def by (induction s) auto




lemma matchWordlists_first:
  "\<forall>v\<in>set pre. \<not> entryMatches L memo v \<Longrightarrow> entryMatches L memo w \<Longrightarrow>
   matchWordlists L memo (pre @ w # post) = (Category w, TrimSpace (Word w), True)"
  unfolding entryMatches_def matchWordlists_def by (rule matchLoop_first)

lemma matchWordlists_none:
  "\<forall>v\<in>set ws. \<not> entryMatches L memo v \<Longrightarrow>
   matchWordlists L memo ws = (SourceUnSpecified, '''', False)"
  unfolding entryMatches_def matchWordlists_def by (rule matchLoop_none)

lemma ingestRow_unmatched:
  "\<not> snd (snd (matchWordlists L (row ! 2) ws)) \<Longrightarrow> ingestRow L ws row incomes = incomes"
  by (auto simp: ingestRow_def Let_def split: option.splits prod.splits)

lemma ingestRow_unclassified:
  "\<not> isClassified L ws row \<Longrightarrow> ingestRow L ws row incomes = incomes"
  by (auto simp: ingestRow_def isClassified_def Let_def split: option.splits prod.splits if_splits)

text \<open>
  Claim C3. The classifier returns the category and the trimmed word of the first entry
  of the wordlist that matches the memo, whatever follows it. When no entry matches, it
  returns \<^verbatim>\<open>SourceUnSpecified\<close> and no match, and the row of that memo leaves every bucket
  of the aggregation as it was.
\<close>

theorem first_match_wins:
  "((\<forall>v\<in>set pre. \<not> entryMatches L memo v) \<and> entryMatches L memo w \<longrightarrow>
      matchWordlists L memo (pre @ w # post) = (Category w, TrimSpace (Word w), True))
   \<and> ((\<forall>v\<in>set ws. \<not> entryMatches L memo v) \<longrightarrow>
      matchWordlists L memo ws = (SourceUnSpecified, '''', False)
      \<and> (row ! 2 = memo \<longrightarrow> ingestRow L ws row incomes = incomes))"
  by (auto simp: matchWordlists_first matchWordlists_none intro!: ingestRow_unmatched)

text \<open>
  With the entries \<^verbatim>\<open>pay\<close> for an allowance and then \<^verbatim>\<open>pay\<close> for a salary, the memo
  \<^verbatim>\<open>pay received\<close> is an allowance; the memo \<^verbatim>\<open>cash deposit\<close> matches neither and its row
  adds nothing.
\<close>

theorem first_match_wins_witness:
  "matchWordlists exampleLib ''pay received''
     [\<lparr>wl_ID = 2, Word = ''pay'', Category = SourceAllowance, wl_CreatedBy = ''admin'',
        wl_CreatedAt = zeroTime\<rparr>,
      \<lparr>wl_ID = 1, Word = ''pay'', Category = SourceSalary, wl_CreatedBy = ''admin'',
        wl_CreatedAt = zeroTime\<rparr>]
     = (SourceAllowance, ''pay'', True)
   \<and> matchWordlists exampleLib ''cash deposit''
     [\<lparr>wl_ID = 2, Word = ''pay'', Category = SourceAllowance, wl_CreatedBy = ''admin'',
        wl_CreatedAt = zeroTime\<rparr>,
      \<lparr>wl_ID = 1, Word = ''pay'', Category = SourceSalary, wl_CreatedBy = ''admin'',
        wl_CreatedAt = zeroTime\<rparr>]
     = (SourceUnSpecified, '''', False)
   \<and> ingestRow exampleLib
     [\<lparr>wl_ID = 2, Word = ''pay'', Category = SourceAllowance, wl_CreatedBy = ''admin'',
        wl_CreatedAt = zeroTime\<rparr>,
      \<lparr>wl_ID = 1, Word = ''pay'', Category = SourceSalary, wl_CreatedBy = ''admin'',
        wl_CreatedAt = zeroTime\<rparr>]
     [''15/01/2024'', ''B-1'', ''cash deposit'', '''', ''1,000,000'']
     Map.empty = Map.empty"
proof -
  let ?a = "\<lparr>wl_ID = 2, Word = ''pay'', Category = SourceAllowance, wl_CreatedBy = ''admin'',
              wl_CreatedAt = zeroTime\<rparr>"
  let ?s = "\<lparr>wl_ID = 1, Word = ''pay'', Category = SourceSalary, wl_CreatedBy = ''admin'',
              wl_CreatedAt = zeroTime\<rparr>"
  let ?row = "[''15/01/2024'', ''B-1'', ''cash deposit'', '''', ''1,000,000'']"
  have hit: "entryMatches exampleLib ''pay received'' ?a" by code_simp
  have miss: "\<forall>v\<in>set [?a, ?s]. \<not> entryMatches exampleLib ''cash deposit'' v" by code_simp
  have memo: "?row ! 2 = ''cash deposit''" by simp
  have 1: "matchWordlists exampleLib ''pay received'' ([] @ ?a # [?s])
             = (Category ?a, TrimSpace (Word ?a), True)"
    using first_match_wins
      [where pre = "[]" and L = exampleLib and memo = "''pay received''" and w = ?a
         and post = "[?s]"] hit
    by simp
  have trim: "TrimSpace ''pay'' = ''pay''" by code_simp
  have 2: "matchWordlists exampleLib ''cash deposit'' [?a, ?s] = (SourceUnSpecified, '''', False)
           \<and> ingestRow exampleLib [?a, ?s] ?row Map.empty = Map.empty"
    using first_match_wins
      [where L = exampleLib and memo = "''cash deposit''" and ws = "[?a, ?s]" and row = ?row
         and incomes = Map.empty and pre = "[]" and w = ?a and post = "[]"]
      miss memo by blast
  show ?thesis using 1 2 trim by simp
qed

subsection \<open>The period\<close>

lemma decimal_Div_None_iff: "decimal_Div d d2 = None \<longleftrightarrow> d2 = 0"
  by (simp add: decimal_Div_def)

lemma toListCommissions_total: "toListCommissions L s period \<noteq> None"
  by (simp add: toListCommissions_def bind_eq_None_conv decimal_Div_None_iff
        split: option.splits del: not_None_eq)

lemma averageCommission_total: "averageCommission L s period \<noteq> None"
  by (simp add: averageCommission_def bind_eq_None_conv toListCommissions_total
        del: not_None_eq)

lemma basicSalary_total: "basicSalary L s product period \<noteq> None"
  by (simp add: basicSalary_def Let_def decimal_Div_None_iff del: not_None_eq)

lemma totalBasicSalary_total: "totalBasicSalary L s product period \<noteq> None"
  by (simp add: totalBasicSalary_def Let_def bind_eq_None_conv decimal_Div_None_iff
        basicSalary_total del: not_None_eq)

lemma totalOtherIncome_total: "totalOtherIncome L s period \<noteq> None"
  by (simp add: totalOtherIncome_def Let_def bind_eq_None_conv totalBasicSalary_total
        del: not_None_eq)

lemma averageOtherIncome_total: "averageOtherIncome L s period \<noteq> None"
  by (simp add: averageOtherIncome_def bind_eq_None_conv decimal_Div_None_iff
        totalOtherIncome_total del: not_None_eq)

lemma averageCommission_zero: "averageCommission L s 0 = Some 0"
  by (simp add: averageCommission_def toListCommissions_def split: option.splits)

lemma toListCommissions_zero:
  "toListCommissions L s 0 = Some cb \<Longrightarrow> cb_MonthlyAverage cb = 0"
  by (auto simp: toListCommissions_def split: option.splits)

lemma populate_zero:
  assumes "populate L c product 0 exchangeRate s = Some c'"
  shows "PeriodInMonth c' = 0 \<and> TotalBasicSalary c' = 0 \<and> TotalOtherIncome c' = 0
         \<and> MonthlyNetIncome c' = 0 \<and> cb_MonthlyAverage (CommissionBreakdown c') = 0"
proof -
  have tb: "totalBasicSalary L s product 0 = Some 0" by (simp add: totalBasicSalary_def)
  have toi: "totalOtherIncome L s 0 = Some 0" by (simp add: totalOtherIncome_def)
  have mni: "netIncomeMonthly L s product exchangeRate 0 = Some 0"
    by (simp add: netIncomeMonthly_def)
  from assms obtain src ab cb mai where
    cb: "toListCommissions L s 0 = Some cb" and
    c': "c' = c\<lparr>Source := src, AllowanceBreakdown := ab, CommissionBreakdown := cb,
               SalaryBreakdown := toListMonthlySalaries L s, PeriodInMonth := 0,
               TotalBasicSalary := 0, TotalIncome := totalIncome s product,
               TotalOtherIncome := 0, MonthlyAverageIncome := mai, MonthlyNetIncome := 0,
               ExchangeRate := exchangeRate\<rparr>"
    unfolding populate_def by (auto simp: bind_eq_Some_conv tb toi mni)
  show ?thesis using toListCommissions_zero [OF cb] by (simp add: c')
qed

text \<open>
  Claim C9. With a period of zero months the total basic salary, the average other income,
  the average commission and the monthly net income are zero, and none of them is a
  division by zero. For any period, no division by the period panics: the basic salary, the
  total basic salary, the total and the average other income and the average commission
  always return a value.
\<close>

theorem period_zero_figures:
  "totalBasicSalary L s product 0 = Some 0
   \<and> averageOtherIncome L s 0 = Some 0
   \<and> averageCommission L s 0 = Some 0
   \<and> netIncomeMonthly L s product exchangeRate 0 = Some 0
   \<and> basicSalary L s product period \<noteq> None
   \<and> totalBasicSalary L s product period \<noteq> None
   \<and> totalOtherIncome L s period \<noteq> None
   \<and> averageOtherIncome L s period \<noteq> None
   \<and> averageCommission L s period \<noteq> None
   \<and> (populate L c product 0 exchangeRate s = Some c' \<longrightarrow>
        PeriodInMonth c' = 0 \<and> TotalBasicSalary c' = 0 \<and> TotalOtherIncome c' = 0
        \<and> MonthlyNetIncome c' = 0 \<and> cb_MonthlyAverage (CommissionBreakdown c') = 0)"
proof -
  have "totalBasicSalary L s product 0 = Some 0" by (simp add: totalBasicSalary_def)
  moreover have "averageOtherIncome L s 0 = Some 0" by (simp add: averageOtherIncome_def)
  moreover have "netIncomeMonthly L s product exchangeRate 0 = Some 0"
    by (simp add: netIncomeMonthly_def)
  ultimately show ?thesis
    using averageCommission_zero basicSalary_total totalBasicSalary_total
      totalOtherIncome_total averageOtherIncome_total averageCommission_total
      populate_zero [of L c product exchangeRate s c']
    by blast
qed

text \<open>
  A calculation of a statement without rows and with a period of zero months has the
  figures zero.
\<close>

theorem period_zero_figures_witness:
  "(case populate exampleLib
           (newCalculation ''teller'' \<lparr>Year = 2024, Month = 4, Day = 2\<rparr> ''N-1'' ''s.xlsx''
              ProductSA)
           ProductSA 0 1 Map.empty of
      None \<Rightarrow> False
    | Some c' \<Rightarrow>
        PeriodInMonth c' = 0 \<and> TotalBasicSalary c' = 0 \<and> TotalOtherIncome c' = 0
        \<and> MonthlyNetIncome c' = 0 \<and> cb_MonthlyAverage (CommissionBreakdown c') = 0)
   \<and> netIncomeMonthly exampleLib Map.empty ProductSA 1 0 = Some 0"
proof -
  let ?c = "newCalculation ''teller'' \<lparr>Year = 2024, Month = 4, Day = 2\<rparr> ''N-1'' ''s.xlsx''
              ProductSA"
  have "populate exampleLib ?c ProductSA 0 1 Map.empty \<noteq> None"
    by (simp add: populate_def newSourceIncome_def toListAllowances_def averageAllowance_def
          toListCommissions_def averageCommission_def totalBasicSalary_def basicSalary_def
          totalOtherIncome_def averageMonthlyIncome_def netIncomeMonthly_def
          basicSalaryFromInterview_def Let_def)
  then obtain c' where c': "populate exampleLib ?c ProductSA 0 1 Map.empty = Some c'"
    by blast
  show ?thesis
    using period_zero_figures [of exampleLib Map.empty ProductSA 1 0 ?c c'] c' by simp
qed

lemma card_months: "card {k::int. a < k \<and> k \<le> b} = nat (b - a)"
proof -
  have "{k::int. a < k \<and> k \<le> b} = {a<..b}" by auto
  then show ?thesis by simp
qed

text \<open>
  Claim C8. When the end of the statement is not before its start, the period is the
  difference of the two calendar months: the number of calendar months after the month of
  the start, up to and including the month of the end. The days are not read. When the end
  is before the start, the period is zero. A month of a \<^verbatim>\<open>time.Time\<close> lies between 1 and 12.
\<close>

theorem countMonth_calendar_months:
  "1 \<le> Month from \<and> Month from \<le> 12 \<and> 1 \<le> Month to \<and> Month to \<le> 12 \<Longrightarrow>
   (\<not> Before to from \<longrightarrow>
      countMonth from to = of_int ((Year to * 12 + Month to) - (Year from * 12 + Month from))
      \<and> countMonth from to
          = of_nat (card {k. Year from * 12 + Month from < k \<and> k \<le> Year to * 12 + Month to}))
   \<and> (Before to from \<longrightarrow> countMonth from to = 0)"
proof -
  assume v: "1 \<le> Month from \<and> Month from \<le> 12 \<and> 1 \<le> Month to \<and> Month to \<le> 12"
  have eq: "\<not> Before to from \<Longrightarrow>
      countMonth from to = of_int ((Year to * 12 + Month to) - (Year from * 12 + Month from))"
    by (simp add: countMonth_def Let_def algebra_simps)
  have ge: "\<not> Before to from \<Longrightarrow> Year from * 12 + Month from \<le> Year to * 12 + Month to"
    using v by (auto simp: Before_def)
  have "\<not> Before to from \<Longrightarrow> countMonth from to
          = of_nat (card {k. Year from * 12 + Month from < k \<and> k \<le> Year to * 12 + Month to})"
    using eq ge by (simp add: card_months)
  then show ?thesis using eq by (auto simp: countMonth_def)
qed

text \<open>
  From 15 December 2023 to 14 March 2024 the period is 3 months (January, February and
  March); with the two dates exchanged it is 0. From 1 January to 31 March 2024 it is 2
  months, and from 31 January to 1 February 2024 it is 1 month.
\<close>

theorem countMonth_calendar_months_witness:
  "\<not> Before \<lparr>Year = 2024, Month = 3, Day = 14\<rparr> \<lparr>Year = 2023, Month = 12, Day = 15\<rparr>
   \<and> countMonth \<lparr>Year = 2023, Month = 12, Day = 15\<rparr> \<lparr>Year = 2024, Month = 3, Day = 14\<rparr> = 3
   \<and> Before \<lparr>Year = 2023, Month = 12, Day = 15\<rparr> \<lparr>Year = 2024, Month = 3, Day = 14\<rparr>
   \<and> countMonth \<lparr>Year = 2024, Month = 3, Day = 14\<rparr> \<lparr>Year = 2023, Month = 12, Day = 15\<rparr> = 0
   \<and> countMonth \<lparr>Year = 2024, Month = 1, Day = 1\<rparr> \<lparr>Year = 2024, Month = 3, Day = 31\<rparr> = 2
   \<and> countMonth \<lparr>Year = 2024, Month = 1, Day = 31\<rparr> \<lparr>Year = 2024, Month = 2, Day = 1\<rparr> = 1"
proof -
  let ?a = "\<lparr>Year = 2023, Month = 12, Day = 15\<rparr>"
  let ?b = "\<lparr>Year = 2024, Month = 3, Day = 14\<rparr>"
  have v: "1 \<le> Month ?a \<and> Month ?a \<le> 12 \<and> 1 \<le> Month ?b \<and> Month ?b \<le> 12" by simp
  have v': "1 \<le> Month ?b \<and> Month ?b \<le> 12 \<and> 1 \<le> Month ?a \<and> Month ?a \<le> 12" by simp
  have nb: "\<not> Before ?b ?a" by (simp add: Before_def)
  have b: "Before ?a ?b" by (simp add: Before_def)
  have 1: "countMonth ?a ?b = 3"
    using countMonth_calendar_months [OF v] nb by simp
  have 2: "countMonth ?b ?a = 0"
    using countMonth_calendar_months [OF v'] b by simp
  have 3: "countMonth \<lparr>Year = 2024, Month = 1, Day = 1\<rparr> \<lparr>Year = 2024, Month = 3, Day = 31\<rparr> = 2"
    using countMonth_calendar_months
      [of "\<lparr>Year = 2024, Month = 1, Day = 1\<rparr>" "\<lparr>Year = 2024, Month = 3, Day = 31\<rparr>"]
    by (simp add: Before_def)
  have 4: "countMonth \<lparr>Year = 2024, Month = 1, Day = 31\<rparr> \<lparr>Year = 2024, Month = 2, Day = 1\<rparr> = 1"
    using countMonth_calendar_months
      [of "\<lparr>Year = 2024, Month = 1, Day = 31\<rparr>" "\<lparr>Year = 2024, Month = 2, Day = 1\<rparr>"]
    by (simp add: Before_def)
  show ?thesis using nb b 1 2 3 4 by simp
qed

subsection \<open>The basic salary\<close>

lemma fold_add_sum: "fold (\<lambda>x s. s + f x) xs (a::rat) = a + sum_list (map f xs)"
  by (induction xs arbitrary: a) (simp_all add: algebra_simps)

lemma sumTransactions_sum: "sumTransactions ts = sum_list (map Amount ts)"
  by (simp add: sumTransactions_def fold_add_sum)

lemma sumAmounts_sum: "sumAmounts xs = sum_list xs"
  using fold_add_sum [of "\<lambda>x. x" xs 0] by (simp add: sumAmounts_def)

lemma fold_min: "fold (\<lambda>x least. if f x < least then f x else least) xs (a::rat)
                 = Min (insert a (set (map f xs)))"
proof (induction xs arbitrary: a)
  case Nil
  then show ?case by simp
next
  case (Cons x xs)
  have "Min (insert (if f x < a then f x else a) (f ` set xs)) = Min (insert a (insert (f x) (f ` set xs)))"
  proof (cases "set xs = {}")
    case True
    then show ?thesis by (auto simp: min_def)
  next
    case False
    then show ?thesis by (auto simp: min_def)
  qed
  with Cons show ?case by simp
qed

lemma findMinFromTransactions_Min:
  "ts \<noteq> [] \<Longrightarrow> findMinFromTransactions ts = Min (set (map Amount ts))"
  by (cases ts) (simp_all add: findMinFromTransactions_def fold_min del: fold.simps fold_simps)

lemma findMinAmountFromMonthlySalaries_Min:
  "ms \<noteq> [] \<Longrightarrow> findMinAmountFromMonthlySalaries ms = Min (set (map ms_Total ms))"
  by (cases ms) (simp_all add: findMinAmountFromMonthlySalaries_def fold_min del: fold.simps fold_simps)

lemma set_insertBy: "set (insertBy lt x ys) = insert x (set ys)"
  by (induction ys) auto

lemma set_sortSlice: "set (sortSlice lt xs) = set xs"
  by (induction xs) (simp_all add: sortSlice_def set_insertBy)

lemma sortSlice_Nil_iff: "sortSlice lt xs = [] \<longleftrightarrow> xs = []"
  using set_sortSlice [of lt xs] by (metis set_empty)

lemma basicSalary_loan:
  assumes "product = ProductPL \<or> product = ProductSF"
    and "s (source_String SourceSalary) = Some raw"
    and "totals = map (\<lambda>(month, tx). sum_list (map Amount tx))
                    (filter (\<lambda>(month, tx). tx \<noteq> []) (Transactions raw))"
    and "totals \<noteq> []"
  shows "basicSalary L s product period = Some (Min (set totals))"
proof -
  define un where "un = map (\<lambda>(month, tx).
                      \<lparr>ms_Month = month, TimesReceived = of_nat (length tx),
                       ms_Transactions = tx, ms_Total = sumTransactions tx\<rparr>)
                  (filter (\<lambda>(month, tx). tx \<noteq> []) (Transactions raw))"
  define ms where "ms = MonthlySalaries (toListMonthlySalaries L s)"
  have ms: "ms = sortSlice (\<lambda>a b. Before (monthTime L (ms_Month a)) (monthTime L (ms_Month b))) un"
    unfolding ms_def un_def using assms(2) by (simp add: toListMonthlySalaries_def)
  have tot: "map ms_Total un = totals"
    unfolding assms(3) un_def by (simp add: sumTransactions_sum comp_def case_prod_unfold)
  have "un \<noteq> []" using assms(4) tot by (cases un) simp_all
  then have ne: "ms \<noteq> []" by (simp add: ms sortSlice_Nil_iff)
  have "set (map ms_Total ms) = set totals"
    unfolding ms using tot by (simp add: set_sortSlice del: map_eq_conv) (metis set_map)
  then have "findMinAmountFromMonthlySalaries ms = Min (set totals)"
    using findMinAmountFromMonthlySalaries_Min [OF ne] by simp
  then show ?thesis
    using assms(1) unfolding ms_def basicSalary_def by (cases product) simp_all
qed



text \<open>
  Claim C1. For the products PL and SF, when the salary has at least one month with
  transactions and the period is positive, the monthly basic salary is the least of the
  totals of the months (the total of a month is the sum of its transactions), and the total
  basic salary is that amount times the period.
\<close>

theorem basic_salary_is_least_monthly_total:
  "(product = ProductPL \<or> product = ProductSF) \<and> s (source_String SourceSalary) = Some raw
   \<and> totals = map (\<lambda>(month, tx). sum_list (map Amount tx))
                 (filter (\<lambda>(month, tx). tx \<noteq> []) (Transactions raw))
   \<and> totals \<noteq> [] \<and> 0 < period \<Longrightarrow>
   basicSalary L s product period = Some (Min (set totals))
   \<and> totalBasicSalary L s product period = Some (Min (set totals) * period)"
proof -
  assume a: "(product = ProductPL \<or> product = ProductSF) \<and> s (source_String SourceSalary) = Some raw
   \<and> totals = map (\<lambda>(month, tx). sum_list (map Amount tx))
                 (filter (\<lambda>(month, tx). tx \<noteq> []) (Transactions raw))
   \<and> totals \<noteq> [] \<and> 0 < period"
  then have p: "product = ProductPL \<or> product = ProductSF" and pos: "period \<noteq> 0"
    by simp_all
  have b: "basicSalary L s product period = Some (Min (set totals))"
    using a basicSalary_loan [of product s raw totals L period] by blast
  have "totalBasicSalary L s product period
          = basicSalary L s product period \<bind> (\<lambda>b. Some (b * period))"
    using p pos unfolding totalBasicSalary_def by (cases product) simp_all
  then have "totalBasicSalary L s product period = Some (Min (set totals) * period)"
    by (simp add: b)
  with b show ?thesis by simp
qed


text \<open>
  January has 1,000,000, February 700,000 and 500,000, March 1,100,000, and the period is 3
  months: the basic salary is 1,000,000, the least monthly total and not the least
  transaction, and the total basic salary is 3,000,000.
\<close>

theorem basic_salary_is_least_monthly_total_witness:
  "basicSalary exampleLib
     [source_String SourceSalary \<mapsto>
        \<lparr>Transactions =
           [(''January-2024'',
             [\<lparr>Date = \<lparr>Year = 2024, Month = 1, Day = 25\<rparr>, BillNumber = ''B1'',
               Noted = ''salary'', Amount = 1000000\<rparr>]),
            (''February-2024'',
             [\<lparr>Date = \<lparr>Year = 2024, Month = 2, Day = 10\<rparr>, BillNumber = ''B2'',
               Noted = ''salary'', Amount = 700000\<rparr>,
              \<lparr>Date = \<lparr>Year = 2024, Month = 2, Day = 25\<rparr>, BillNumber = ''B3'',
               Noted = ''salary'', Amount = 500000\<rparr>]),
            (''March-2024'',
             [\<lparr>Date = \<lparr>Year = 2024, Month = 3, Day = 25\<rparr>, BillNumber = ''B4'',
               Noted = ''salary'', Amount = 1100000\<rparr>])],
         Monthly = [1000000, 700000, 500000, 1100000], Total = 3300000,
         AverageMonth = Map.empty\<rparr>]
     ProductPL 3 = Some 1000000
   \<and> totalBasicSalary exampleLib
     [source_String SourceSalary \<mapsto>
        \<lparr>Transactions =
           [(''January-2024'',
             [\<lparr>Date = \<lparr>Year = 2024, Month = 1, Day = 25\<rparr>, BillNumber = ''B1'',
               Noted = ''salary'', Amount = 1000000\<rparr>]),
            (''February-2024'',
             [\<lparr>Date = \<lparr>Year = 2024, Month = 2, Day = 10\<rparr>, BillNumber = ''B2'',
               Noted = ''salary'', Amount = 700000\<rparr>,
              \<lparr>Date = \<lparr>Year = 2024, Month = 2, Day = 25\<rparr>, BillNumber = ''B3'',
               Noted = ''salary'', Amount = 500000\<rparr>]),
            (''March-2024'',
             [\<lparr>Date = \<lparr>Year = 2024, Month = 3, Day = 25\<rparr>, BillNumber = ''B4'',
               Noted = ''salary'', Amount = 1100000\<rparr>])],
         Monthly = [1000000, 700000, 500000, 1100000], Total = 3300000,
         AverageMonth = Map.empty\<rparr>]
     ProductPL 3 = Some 3000000"
proof -
  let ?raw = "\<lparr>Transactions =
           [(''January-2024'',
             [\<lparr>Date = \<lparr>Year = 2024, Month = 1, Day = 25\<rparr>, BillNumber = ''B1'',
               Noted = ''salary'', Amount = 1000000\<rparr>]),
            (''February-2024'',
             [\<lparr>Date = \<lparr>Year = 2024, Month = 2, Day = 10\<rparr>, BillNumber = ''B2'',
               Noted = ''salary'', Amount = 700000\<rparr>,
              \<lparr>Date = \<lparr>Year = 2024, Month = 2, Day = 25\<rparr>, BillNumber = ''B3'',
               Noted = ''salary'', Amount = 500000\<rparr>]),
            (''March-2024'',
             [\<lparr>Date = \<lparr>Year = 2024, Month = 3, Day = 25\<rparr>, BillNumber = ''B4'',
               Noted = ''salary'', Amount = 1100000\<rparr>])],
         Monthly = [1000000, 700000, 500000, 1100000], Total = 3300000,
         AverageMonth = Map.empty\<rparr>"
  let ?s = "[source_String SourceSalary \<mapsto> ?raw]"
  let ?totals = "[1000000, 1200000, 1100000 :: decimal]"
  have h: "(ProductPL = ProductPL \<or> ProductPL = ProductSF)
     \<and> ?s (source_String SourceSalary) = Some ?raw
     \<and> ?totals = map (\<lambda>(month, tx). sum_list (map Amount tx))
                     (filter (\<lambda>(month, tx). tx \<noteq> []) (Transactions ?raw))
     \<and> ?totals \<noteq> [] \<and> (0 :: decimal) < 3"
    by simp
  have m: "Min (set ?totals) = 1000000" by simp
  have "basicSalary exampleLib ?s ProductPL 3 = Some (Min (set ?totals))
        \<and> totalBasicSalary exampleLib ?s ProductPL 3 = Some (Min (set ?totals) * 3)"
    using basic_salary_is_least_monthly_total [of ProductPL ?s ?raw ?totals 3 exampleLib] h
    by blast
  then show ?thesis by (simp only: m) simp
qed

subsection \<open>The total income\<close>

lemma mapAppend_amounts:
  "sum_list (map Amount (concat (map snd (mapAppend m k xs))))
     = sum_list (map Amount (concat (map snd m))) + sum_list (map Amount xs)"
  by (induction m k xs rule: mapAppend.induct) simp_all

lemma mapAppend_nonempty:
  "xs \<noteq> [] \<Longrightarrow> \<forall>(k', tx)\<in>set m. tx \<noteq> [] \<Longrightarrow> \<forall>(k', tx)\<in>set (mapAppend m k xs). tx \<noteq> []"
  by (induction m k xs rule: mapAppend.induct) auto

lemma addIncome_invariant:
  assumes "salaryInvariant incomes" and "Amount transaction = incomeAmount"
  shows "salaryInvariant (addIncome incomes category month title incomeAmount transaction)"
proof (cases category)
  case SourceSalary
  show ?thesis
  proof (cases "incomes (source_String SourceSalary)")
    case None
    then show ?thesis
      using assms SourceSalary
      by (simp add: salaryInvariant_def statOf_def emptyStatCal_def Let_def)
  next
    case (Some st)
    then show ?thesis
      using assms SourceSalary mapAppend_nonempty [of "[transaction]" "Transactions st" month]
      by (simp add: salaryInvariant_def statOf_def Let_def mapAppend_amounts)
  qed
qed (use assms in \<open>simp_all add: salaryInvariant_def Let_def\<close>)

lemma ingestRow_invariant:
  "salaryInvariant incomes \<Longrightarrow> salaryInvariant (ingestRow L wordlists row incomes)"
  by (auto simp: ingestRow_def Let_def addIncome_invariant split: option.splits prod.splits)

lemma fold_ingestRow_invariant:
  "salaryInvariant incomes \<Longrightarrow> salaryInvariant (fold (ingestRow L wordlists) rows incomes)"
  by (induction rows arbitrary: incomes) (simp_all add: ingestRow_invariant)

lemma ingestRows_invariant: "salaryInvariant (ingestRows L wordlists rows)"
  unfolding ingestRows_def
  by (rule fold_ingestRow_invariant) (simp add: salaryInvariant_def)

lemma salaryStat_invariant:
  "sum_list (Monthly st) = sum_list (map Amount (concat (map snd (Transactions st))))
   \<Longrightarrow> \<forall>(month, tx)\<in>set (Transactions st). tx \<noteq> []
   \<Longrightarrow> sum_list (Monthly (salaryStat ms st))
         = sum_list (map Amount (concat (map snd (Transactions (salaryStat ms st)))))
       \<and> (\<forall>(month, tx)\<in>set (Transactions (salaryStat ms st)). tx \<noteq> [])"
proof (induction ms arbitrary: st)
  case Nil
  then show ?case by simp
next
  case (Cons m ms)
  show ?case
  proof (cases "ms_Transactions m = []")
    case True
    then show ?thesis using Cons by simp
  next
    case False
    let ?st = "st\<lparr>Transactions := mapAppend (Transactions st) (ms_Month m) (ms_Transactions m),
                   Monthly := Monthly st @ map Amount (ms_Transactions m)\<rparr>"
    have 1: "sum_list (Monthly ?st) = sum_list (map Amount (concat (map snd (Transactions ?st))))"
      using Cons.prems(1) by (simp add: mapAppend_amounts)
    have 2: "\<forall>(month, tx)\<in>set (Transactions ?st). tx \<noteq> []"
      using mapAppend_nonempty [OF False Cons.prems(2)] by simp
    show ?thesis using Cons.IH [OF 1 2] False by simp
  qed
qed

lemma toStateMap_invariant: "salaryInvariant (toStateMap c)"
  using salaryStat_invariant [of emptyStatCal "MonthlySalaries (SalaryBreakdown c)"]
  by (simp add: salaryInvariant_def toStateMap_def withTotal_def sumAmounts_sum emptyStatCal_def)


lemma totalIncome_SA_sum:
  "s (source_String SourceSalary) = Some raw \<Longrightarrow>
   totalIncome s ProductSA
     = sum_list (map (\<lambda>(month, tx). findMinFromTransactions tx) (Transactions raw))"
  using fold_add_sum [of "\<lambda>(month, tx). findMinFromTransactions tx" "Transactions raw" 0]
  by (simp add: totalIncome_def case_prod_unfold)

lemma map_findMin_Min:
  "\<forall>(month, tx)\<in>set buckets. tx \<noteq> [] \<Longrightarrow>
   map (\<lambda>(month, tx). findMinFromTransactions tx) buckets
     = map (\<lambda>(month, tx). Min (set (map Amount tx))) buckets"
  by (induction buckets) (auto simp: findMinFromTransactions_Min)

lemma sum_list_concat_buckets:
  "sum_list (map Amount (concat (map snd buckets)))
     = sum_list (map (\<lambda>(month, tx). sum_list (map Amount tx)) buckets)"
  by (induction buckets) auto

lemma toStateMap_salary_amounts:
  "sum_list (map Amount (concat (map snd (Transactions (salaryStat ms st)))))
     = sum_list (map Amount (concat (map snd (Transactions st))))
       + sum_list (map Amount (concat (map ms_Transactions ms)))"
  by (induction ms arbitrary: st) (simp_all add: mapAppend_amounts)

text \<open>
  Claim C2. For a \<^verbatim>\<open>statMap\<close> built from the rows of a statement or from a recalculation
  request, with \<open>buckets\<close> the month buckets of its salary entry: for the product SA the
  total income is the sum, over the buckets, of the least amount of a transaction of the
  bucket; for PL and SF it is the sum of the amounts of all the transactions of all the
  buckets, and for a recalculation the sum of the amounts of all the salary transactions of
  the request. No bucket is empty, and without a salary transaction the total income is
  zero for every product.
\<close>

theorem total_income_by_product:
  "(s = ingestRows L wordlists rows \<or> s = toStateMap c)
   \<and> buckets = (case s (source_String SourceSalary) of None \<Rightarrow> [] | Some raw \<Rightarrow> Transactions raw)
   \<Longrightarrow>
   totalIncome s ProductSA = (\<Sum>(month, tx)\<leftarrow>buckets. Min (set (map Amount tx)))
   \<and> totalIncome s ProductPL = (\<Sum>(month, tx)\<leftarrow>buckets. \<Sum>t\<leftarrow>tx. Amount t)
   \<and> totalIncome s ProductSF = (\<Sum>(month, tx)\<leftarrow>buckets. \<Sum>t\<leftarrow>tx. Amount t)
   \<and> (\<forall>(month, tx)\<in>set buckets. tx \<noteq> [])
   \<and> (buckets = [] \<longrightarrow> totalIncome s product = 0)
   \<and> totalIncome (toStateMap c) ProductPL
       = (\<Sum>t\<leftarrow>concat (map ms_Transactions (MonthlySalaries (SalaryBreakdown c))). Amount t)"
proof -
  assume a: "(s = ingestRows L wordlists rows \<or> s = toStateMap c)
   \<and> buckets = (case s (source_String SourceSalary) of None \<Rightarrow> [] | Some raw \<Rightarrow> Transactions raw)"
  then have inv: "salaryInvariant s"
    using ingestRows_invariant toStateMap_invariant by blast
  have b: "buckets = (case s (source_String SourceSalary) of None \<Rightarrow> [] | Some raw \<Rightarrow> Transactions raw)"
    using a by simp
  have last: "totalIncome (toStateMap c) ProductPL
       = (\<Sum>t\<leftarrow>concat (map ms_Transactions (MonthlySalaries (SalaryBreakdown c))). Amount t)"
    using toStateMap_salary_amounts [of "MonthlySalaries (SalaryBreakdown c)" emptyStatCal]
      toStateMap_invariant [of c]
    by (simp add: salaryInvariant_def totalIncome_def toStateMap_def emptyStatCal_def
          withTotal_def)
  show ?thesis
  proof (cases "s (source_String SourceSalary)")
    case None
    then have "buckets = []" using b by simp
    moreover have "totalIncome s product = 0" for product
      using None by (simp add: totalIncome_def)
    ultimately show ?thesis using last by simp
  next
    case (Some raw)
    then have bk: "buckets = Transactions raw" using b by simp
    have tot: "Total raw = sum_list (map Amount (concat (map snd buckets)))"
      and ne: "\<forall>(month, tx)\<in>set buckets. tx \<noteq> []"
      using inv Some bk by (simp_all add: salaryInvariant_def)
    have sa: "totalIncome s ProductSA = (\<Sum>(month, tx)\<leftarrow>buckets. Min (set (map Amount tx)))"
    proof -
      have "totalIncome s ProductSA
              = sum_list (map (\<lambda>(month, tx). findMinFromTransactions tx) buckets)"
        using totalIncome_SA_sum [of s raw] Some bk by simp
      then show ?thesis by (simp only: map_findMin_Min [OF ne])
    qed
    have pl: "totalIncome s ProductPL = (\<Sum>(month, tx)\<leftarrow>buckets. \<Sum>t\<leftarrow>tx. Amount t)"
      using Some tot by (simp add: totalIncome_def sum_list_concat_buckets)
    have sf: "totalIncome s ProductSF = (\<Sum>(month, tx)\<leftarrow>buckets. \<Sum>t\<leftarrow>tx. Amount t)"
      using Some tot by (simp add: totalIncome_def sum_list_concat_buckets)
    have z: "buckets = [] \<longrightarrow> totalIncome s product = 0"
      using Some tot bk by (cases product) (simp_all add: totalIncome_def)
    show ?thesis using sa pl sf ne z last by blast
  qed
qed


text \<open>
  A statement with a salary of 1,000,000 in January, salaries of 700,000 and 500,000 in
  February and a row that is no income: the total income is 1,500,000 for SA and 2,200,000
  for PL. A statement with no salary row has the total income 0. A recalculation request
  with the salaries 1,000,000, 1,200,000 and 1,100,000 has the total income 3,300,000 for
  PL.
\<close>

theorem total_income_by_product_witness:
  "totalIncome
     (ingestRows exampleLib
        [\<lparr>wl_ID = 1, Word = ''salary'', Category = SourceSalary, wl_CreatedBy = ''admin'',
           wl_CreatedAt = zeroTime\<rparr>]
        [[''25/01/2024'', ''B1'', ''Salary January'', '''', ''1,000,000''],
         [''10/02/2024'', ''B2'', ''salary'', '''', ''700,000''],
         [''25/02/2024'', ''B3'', ''salary, second part'', '''', ''500,000''],
         [''01/03/2024'', ''B4'', ''rent'', '''', ''90,000'']])
     ProductSA = 1500000
   \<and> totalIncome
     (ingestRows exampleLib
        [\<lparr>wl_ID = 1, Word = ''salary'', Category = SourceSalary, wl_CreatedBy = ''admin'',
           wl_CreatedAt = zeroTime\<rparr>]
        [[''25/01/2024'', ''B1'', ''Salary January'', '''', ''1,000,000''],
         [''10/02/2024'', ''B2'', ''salary'', '''', ''700,000''],
         [''25/02/2024'', ''B3'', ''salary, second part'', '''', ''500,000''],
         [''01/03/2024'', ''B4'', ''rent'', '''', ''90,000'']])
     ProductPL = 2200000
   \<and> totalIncome
     (ingestRows exampleLib
        [\<lparr>wl_ID = 1, Word = ''salary'', Category = SourceSalary, wl_CreatedBy = ''admin'',
           wl_CreatedAt = zeroTime\<rparr>]
        [[''01/03/2024'', ''B4'', ''rent'', '''', ''90,000'']])
     ProductSF = 0
   \<and> totalIncome
     (toStateMap (examplePending\<lparr>SalaryBreakdown := newSalaryBreakdown exampleSalaries\<rparr>))
     ProductPL = 3300000"
proof -
  let ?ws = "[\<lparr>wl_ID = 1, Word = ''salary'', Category = SourceSalary, wl_CreatedBy = ''admin'',
                wl_CreatedAt = zeroTime\<rparr>]"
  let ?rows = "[[''25/01/2024'', ''B1'', ''Salary January'', '''', ''1,000,000''],
         [''10/02/2024'', ''B2'', ''salary'', '''', ''700,000''],
         [''25/02/2024'', ''B3'', ''salary, second part'', '''', ''500,000''],
         [''01/03/2024'', ''B4'', ''rent'', '''', ''90,000'']]"
  let ?buckets =
    "[(''January-2024'',
       [\<lparr>Date = \<lparr>Year = 2024, Month = 1, Day = 25\<rparr>, BillNumber = ''B1'',
         Noted = ''Salary January'', Amount = 1000000\<rparr>]),
      (''February-2024'',
       [\<lparr>Date = \<lparr>Year = 2024, Month = 2, Day = 10\<rparr>, BillNumber = ''B2'',
         Noted = ''salary'', Amount = 700000\<rparr>,
        \<lparr>Date = \<lparr>Year = 2024, Month = 2, Day = 25\<rparr>, BillNumber = ''B3'',
         Noted = ''salary, second part'', Amount = 500000\<rparr>])]"
  let ?c = "newCalculation '''' zeroTime '''' '''' ProductSA"
  have b1: "?buckets = (case ingestRows exampleLib ?ws ?rows (source_String SourceSalary) of
                          None \<Rightarrow> [] | Some raw \<Rightarrow> Transactions raw)"
    by code_simp
  have b2: "[] = (case ingestRows exampleLib ?ws [[''01/03/2024'', ''B4'', ''rent'', '''', ''90,000'']]
                         (source_String SourceSalary) of
                    None \<Rightarrow> [] | Some raw \<Rightarrow> Transactions raw)"
    by code_simp
  have t: "totalIncome (ingestRows exampleLib ?ws ?rows) ProductSA
             = (\<Sum>(month, tx)\<leftarrow>?buckets. Min (set (map Amount tx)))
           \<and> totalIncome (ingestRows exampleLib ?ws ?rows) ProductPL
             = (\<Sum>(month, tx)\<leftarrow>?buckets. \<Sum>t\<leftarrow>tx. Amount t)"
    using total_income_by_product
      [of "ingestRows exampleLib ?ws ?rows" exampleLib ?ws ?rows ?c ?buckets ProductSA] b1
    by blast
  have v1: "(\<Sum>(month, tx)\<leftarrow>?buckets. Min (set (map Amount tx))) = 1500000" by simp
  have v2: "(\<Sum>(month, tx)\<leftarrow>?buckets. \<Sum>t\<leftarrow>tx. Amount t) = 2200000" by simp
  have 1: "totalIncome (ingestRows exampleLib ?ws ?rows) ProductSA = 1500000
           \<and> totalIncome (ingestRows exampleLib ?ws ?rows) ProductPL = 2200000"
    using t by (simp only: v1 v2)
  have 2: "totalIncome (ingestRows exampleLib ?ws [[''01/03/2024'', ''B4'', ''rent'', '''', ''90,000'']])
             ProductSF = 0"
    using total_income_by_product
      [of "ingestRows exampleLib ?ws [[''01/03/2024'', ''B4'', ''rent'', '''', ''90,000'']]"
          exampleLib ?ws "[[''01/03/2024'', ''B4'', ''rent'', '''', ''90,000'']]" ?c "[]" ProductSF] b2
    by blast
  let ?r = "examplePending\<lparr>SalaryBreakdown := newSalaryBreakdown exampleSalaries\<rparr>"
  have v3: "(\<Sum>t\<leftarrow>concat (map ms_Transactions (MonthlySalaries (SalaryBreakdown ?r))). Amount t)
              = 3300000"
    by (simp add: newSalaryBreakdown_def exampleSalaries_def exampleTx_def)
  have "totalIncome (toStateMap ?r) ProductPL
          = (\<Sum>t\<leftarrow>concat (map ms_Transactions (MonthlySalaries (SalaryBreakdown ?r))). Amount t)"
    using total_income_by_product
      [of "toStateMap ?r" exampleLib ?ws "[]" ?r
          "case toStateMap ?r (source_String SourceSalary) of
             None \<Rightarrow> [] | Some raw \<Rightarrow> Transactions raw" ProductPL]
    by blast
  then have 3: "totalIncome (toStateMap ?r) ProductPL = 3300000"
    by (simp only: v3)
  show ?thesis using 1 2 3 by blast
qed

subsection \<open>The divisor of an allowance\<close>

lemma allowancesLoop_zero_divisor:
  "(title, tx) \<in> set buckets \<Longrightarrow> tx \<noteq> [] \<Longrightarrow> am title = Some 0 \<Longrightarrow>
   allowancesLoop am buckets months allowances totalAllowance = None"
proof (induction am buckets months allowances totalAllowance rule: allowancesLoop.induct)
  case (1 am months allowances totalAllowance)
  then show ?case by simp
next
  case (2 am title' tx' rest months allowances totalAllowance)
  show ?case
  proof (cases "tx' = []")
    case True
    then show ?thesis using 2 by auto
  next
    case False
    show ?thesis
    proof (cases "(title, tx) = (title', tx')")
      case True
      then show ?thesis using False 2(4,5) by (simp add: decimal_Div_def)
    next
      case neq: False
      then have "(title, tx) \<in> set rest" using 2(3) by auto
      then show ?thesis
        using False 2(2) 2(4,5) by (auto simp: Let_def split: option.splits)
    qed
  qed
qed

lemma mapAppend_keeps:
  "(k, tx) \<in> set m \<Longrightarrow> tx \<noteq> [] \<Longrightarrow> \<exists>tx'. (k, tx') \<in> set (mapAppend m k' xs) \<and> tx' \<noteq> []"
  by (induction m k' xs rule: mapAppend.induct) auto

lemma mapAppend_adds:
  "xs \<noteq> [] \<Longrightarrow> \<exists>tx'. (k, tx') \<in> set (mapAppend m k xs) \<and> tx' \<noteq> []"
  by (induction m k xs rule: mapAppend.induct) auto

lemma allowanceStat_keeps:
  "(k, tx) \<in> set (Transactions st) \<Longrightarrow> tx \<noteq> [] \<Longrightarrow>
   \<exists>tx'. (k, tx') \<in> set (Transactions (allowanceStat as st)) \<and> tx' \<noteq> []"
proof (induction as arbitrary: st tx)
  case Nil
  then show ?case by auto
next
  case (Cons a as)
  show ?case
  proof (cases "al_Transactions a = []")
    case True
    then show ?thesis using Cons by simp
  next
    case False
    obtain tx' where "(k, tx') \<in> set (mapAppend (Transactions st) (Title a) (al_Transactions a))"
      and "tx' \<noteq> []"
      using mapAppend_keeps [OF Cons.prems] by blast
    then show ?thesis using Cons.IH [of tx'] False by simp
  qed
qed

lemma allowanceStat_divisor:
  "AverageMonth st k = Some 0 \<Longrightarrow>
   \<forall>b\<in>set as. Title b = k \<and> al_Transactions b \<noteq> [] \<longrightarrow> Months b = 0 \<Longrightarrow>
   AverageMonth (allowanceStat as st) k = Some 0"
  by (induction as arbitrary: st) auto

lemma allowanceStat_append:
  "allowanceStat (xs @ ys) st = allowanceStat ys (allowanceStat xs st)"
  by (induction xs arbitrary: st) auto

lemma allowanceStat_zero_divisor:
  assumes "as = pre @ a # post" and "al_Transactions a \<noteq> []" and "Months a = 0"
    and "\<forall>b\<in>set post. Title b = Title a \<and> al_Transactions b \<noteq> [] \<longrightarrow> Months b = 0"
  shows "\<exists>tx. (Title a, tx) \<in> set (Transactions (allowanceStat as st)) \<and> tx \<noteq> []
              \<and> AverageMonth (allowanceStat as st) (Title a) = Some 0"
proof -
  let ?st1 = "allowanceStat pre st"
  let ?st2 = "?st1\<lparr>Transactions := mapAppend (Transactions ?st1) (Title a) (al_Transactions a),
                     Monthly := Monthly ?st1 @ [al_Total a],
                     AverageMonth := (AverageMonth ?st1)(Title a \<mapsto> Months a)\<rparr>"
  have eq: "allowanceStat as st = allowanceStat post ?st2"
    using assms(1,2) by (simp add: allowanceStat_append)
  obtain tx where "(Title a, tx) \<in> set (Transactions ?st2)" and "tx \<noteq> []"
    using mapAppend_adds [OF assms(2), of "Title a" "Transactions ?st1"] by auto
  then obtain tx' where t: "(Title a, tx') \<in> set (Transactions (allowanceStat post ?st2))"
    and n: "tx' \<noteq> []"
    using allowanceStat_keeps by blast
  have "AverageMonth ?st2 (Title a) = Some 0" using assms(3) by simp
  then have "AverageMonth (allowanceStat post ?st2) (Title a) = Some 0"
    using assms(4) by (rule allowanceStat_divisor)
  then show ?thesis using t n eq by auto
qed

lemma toListAllowances_zero_divisor:
  assumes "Allowances (AllowanceBreakdown c) = pre @ a # post"
    and "al_Transactions a \<noteq> []" and "Months a = 0"
    and "\<forall>b\<in>set post. Title b = Title a \<and> al_Transactions b \<noteq> [] \<longrightarrow> Months b = 0"
  shows "toListAllowances (toStateMap c) = None"
proof -
  let ?st = "allowanceStat (Allowances (AllowanceBreakdown c)) emptyStatCal"
  obtain tx where "(Title a, tx) \<in> set (Transactions ?st)" and "tx \<noteq> []"
    and "AverageMonth ?st (Title a) = Some 0"
    using allowanceStat_zero_divisor [OF assms] by blast
  then have "allowancesLoop (AverageMonth ?st) (Transactions ?st) 12 [] 0 = None"
    by (rule allowancesLoop_zero_divisor)
  then show ?thesis
    by (simp add: toListAllowances_def toStateMap_def withTotal_def)
qed


lemma ReCalculate_zero_divisor:
  assumes "rq_Allowances req = pre @ a # post"
    and "al_Transactions a \<noteq> []" and "Months a = 0"
    and "\<forall>b\<in>set post. Title b = Title a \<and> al_Transactions b \<noteq> [] \<longrightarrow> Months b = 0"
  shows "ReCalculate L by now c req = None"
proof -
  let ?c1 = "c\<lparr>SalaryBreakdown := newSalaryBreakdown (rq_MonthlySalaries req),
                 AllowanceBreakdown := newAllowanceBreakdown (rq_Allowances req),
                 CommissionBreakdown := newCommissionBreakdown (rq_Commissions req)\<rparr>"
  have "Allowances (AllowanceBreakdown ?c1) = pre @ a # post"
    using assms(1) by (simp add: newAllowanceBreakdown_def)
  then have "toListAllowances (toStateMap ?c1) = None"
    using assms(2,3,4) by (rule toListAllowances_zero_divisor)
  then show ?thesis
    by (simp add: ReCalculate_def Let_def populate_def newSourceIncome_def)
qed

text \<open>
  Claim C10, amended. A recalculation request has an allowance bucket with transactions
  and the divisor 0, and no later bucket of the request with the same title and with
  transactions has another divisor. Then the aggregation of the allowances divides the
  total of the title by zero: \<^verbatim>\<open>ReCalculate\<close> panics whatever the calculation, and
  \<^verbatim>\<open>ReCalculateIncome\<close> on a calculation that is not completed panics, returns nothing and
  saves nothing.
\<close>

theorem zero_divisor_faults:
  "rq_Allowances req = pre @ a # post \<and> al_Transactions a \<noteq> [] \<and> Months a = 0
   \<and> (\<forall>b\<in>set post. Title b = Title a \<and> al_Transactions b \<noteq> [] \<longrightarrow> Months b = 0)
   \<Longrightarrow>
   ReCalculate L by now c req = None
   \<and> (getCalculation E (rq_Number req) = Some c \<and> \<not> IsCompleted c \<longrightarrow>
        ReCalculateIncome L E by now req = (Panicked, None))"
proof -
  assume a: "rq_Allowances req = pre @ a # post \<and> al_Transactions a \<noteq> [] \<and> Months a = 0
   \<and> (\<forall>b\<in>set post. Title b = Title a \<and> al_Transactions b \<noteq> [] \<longrightarrow> Months b = 0)"
  then have r: "ReCalculate L by now c req = None"
    using ReCalculate_zero_divisor [of req pre a post L "by" now c] by blast
  then show ?thesis by (simp add: ReCalculateIncome_def)
qed

text \<open>
  A request with the single allowance \<^verbatim>\<open>fuel\<close>, one transaction and the divisor 0, on a
  pending calculation.
\<close>

theorem zero_divisor_faults_witness:
  "ReCalculate exampleLib ''teller'' \<lparr>Year = 2024, Month = 4, Day = 3\<rparr> examplePending
     (exampleRequest 0 [exampleAllowance ''fuel'' 0]) = None
   \<and> ReCalculateIncome exampleLib exampleEnv ''teller'' \<lparr>Year = 2024, Month = 4, Day = 3\<rparr>
       (exampleRequest 0 [exampleAllowance ''fuel'' 0]) = (Panicked, None)"
proof -
  let ?a = "exampleAllowance ''fuel'' 0"
  let ?req = "exampleRequest 0 [?a]"
  have h: "rq_Allowances ?req = [] @ ?a # [] \<and> al_Transactions ?a \<noteq> [] \<and> Months ?a = 0
           \<and> (\<forall>b\<in>set []. Title b = Title ?a \<and> al_Transactions b \<noteq> [] \<longrightarrow> Months b = 0)"
    by (simp add: exampleRequest_def exampleAllowance_def)
  have g: "getCalculation exampleEnv (rq_Number ?req) = Some examplePending
           \<and> \<not> IsCompleted examplePending"
    by (simp add: getCalculation_def exampleEnv_def exampleRequest_def IsCompleted_def
          examplePending_def newCalculation_def)
  show ?thesis
    using zero_divisor_faults [of ?req "[]" ?a "[]" exampleLib "''teller''"
        "\<lparr>Year = 2024, Month = 4, Day = 3\<rparr>" examplePending exampleEnv] h g
    by blast
qed

text \<open>
  Claim C10 as stated fails. The request has the allowance \<^verbatim>\<open>fuel\<close> twice, each with one
  transaction of 600,000, first with the divisor 0 and then with the divisor 12.
  \<^verbatim>\<open>toStateMap\<close> gathers both under the title and keeps the divisor of the second, so the
  aggregation divides 1,200,000 by 12 and the recalculation returns a result: the average
  allowance is 100,000 and the monthly average income 1,160,000.
\<close>

theorem zero_divisor_overridden_counterexample:
  "exampleAllowance ''fuel'' 0 \<in> set (rq_Allowances
       (exampleRequest 0 [exampleAllowance ''fuel'' 0, exampleAllowance ''fuel'' 12]))
   \<and> al_Transactions (exampleAllowance ''fuel'' 0) \<noteq> []
   \<and> Months (exampleAllowance ''fuel'' 0) = 0
   \<and> map_option (\<lambda>c. (ab_Total (AllowanceBreakdown c), MonthlyAverageIncome c))
        (ReCalculate exampleLib ''teller'' \<lparr>Year = 2024, Month = 4, Day = 3\<rparr> examplePending
           (exampleRequest 0 [exampleAllowance ''fuel'' 0, exampleAllowance ''fuel'' 12]))
       = Some (100000, 1160000)
   \<and> fst (ReCalculateIncome exampleLib exampleEnv ''teller'' \<lparr>Year = 2024, Month = 4, Day = 3\<rparr>
           (exampleRequest 0 [exampleAllowance ''fuel'' 0, exampleAllowance ''fuel'' 12]))
       \<noteq> Panicked"
  by code_simp

subsection \<open>The interview salary\<close>

text \<open>
  The override itself, as \<^verbatim>\<open>averageMonthlyIncome\<close> computes it from the entry
  \<^verbatim>\<open>BASIC_SALARY_INTERVIEW\<close> of the map: the interview salary replaces the basic salary when
  it is positive and less than the basic salary. No builder of the map writes that entry:
  after \<^verbatim>\<open>toStateMap\<close> and after the loop over the rows the interview salary is 0, and
  \<^verbatim>\<open>ReCalculate\<close> returns the same result whatever the request declares.
\<close>

lemma averageMonthlyIncome_override:
  "(product = ProductPL \<or> product = ProductSF \<longrightarrow>
      averageOtherIncomeIn80Percent L s period = Some haircut) \<Longrightarrow>
   (product = ProductSA \<longrightarrow>
      averageAllowance s period = Some a \<and> averageCommission L s period = Some c
      \<and> haircut = a + c) \<Longrightarrow>
   product \<noteq> ProductUnSpecified \<Longrightarrow>
   basicSalary L s product period = Some basic \<Longrightarrow>
   averageMonthlyIncome L s product period
     = Some ((if 0 < basicSalaryFromInterview s \<and> basicSalaryFromInterview s < basic
              then basicSalaryFromInterview s else basic) + haircut)"
  by (cases product) (auto simp: averageMonthlyIncome_def Let_def)

lemma toStateMap_no_interview: "basicSalaryFromInterview (toStateMap c) = 0"
  by (simp add: basicSalaryFromInterview_def toStateMap_def)

lemma addIncome_no_interview:
  "incomes (source_String SourceBasicSalaryInterview) = None \<Longrightarrow>
   addIncome incomes category month title incomeAmount transaction
     (source_String SourceBasicSalaryInterview) = None"
  by (cases category) (simp_all add: Let_def)

lemma ingestRow_no_interview:
  "incomes (source_String SourceBasicSalaryInterview) = None \<Longrightarrow>
   ingestRow L wordlists row incomes (source_String SourceBasicSalaryInterview) = None"
  using addIncome_no_interview
  by (auto simp: ingestRow_def Let_def split: option.splits prod.splits)

lemma fold_ingestRow_no_interview:
  "incomes (source_String SourceBasicSalaryInterview) = None \<Longrightarrow>
   fold (ingestRow L wordlists) rows incomes (source_String SourceBasicSalaryInterview) = None"
  by (induction rows arbitrary: incomes) (simp_all add: ingestRow_no_interview del: source_String.simps)

lemma ingestRows_no_interview: "basicSalaryFromInterview (ingestRows L wordlists rows) = 0"
  using fold_ingestRow_no_interview [of Map.empty L wordlists rows]
  by (simp add: basicSalaryFromInterview_def ingestRows_def)

lemma ReCalculate_ignores_interview:
  "ReCalculate L by now c (req\<lparr>BasicSalaryFromInterview := x\<rparr>) = ReCalculate L by now c req"
  by (simp add: ReCalculate_def)

text \<open>
  Claim C5. A recalculation of a pending calculation for PL over 3 months declares an
  interview salary of 900,000; the salaries of the request are 1,000,000, 1,200,000 and
  1,100,000, so the basic salary is 1,000,000 and the 80 percent part is 80,000. The claim
  gives 900,000 + 80,000 = 980,000, and so does \<^verbatim>\<open>averageMonthlyIncome\<close> when the map holds
  the interview salary. \<^verbatim>\<open>ReCalculate\<close> does not put it there: the monthly average income it
  returns is 1,000,000 + 80,000 = 1,080,000.
\<close>

theorem recalculation_ignores_interview_salary:
  "map_option (\<lambda>c. (bd_MonthlyAverage (src_BasicSalary (Source c)), MonthlyAverageIncome c))
     (ReCalculate exampleLib ''teller'' \<lparr>Year = 2024, Month = 4, Day = 3\<rparr> examplePending
        (exampleRequest 900000 []))
     = Some (1000000, 1080000)
   \<and> averageMonthlyIncome exampleLib
       ((toStateMap (examplePending\<lparr>SalaryBreakdown := newSalaryBreakdown exampleSalaries\<rparr>))
          (source_String SourceBasicSalaryInterview \<mapsto> emptyStatCal\<lparr>Total := 900000\<rparr>))
       ProductPL 3
     = Some 980000"
  by code_simp

subsection \<open>The service\<close>

lemma populate_empty:
  "populate L c product period exchangeRate Map.empty
     = Some (c\<lparr>Source := \<lparr>src_BasicSalary = \<lparr>bd_MonthlyAverage = 0, bd_Total = 0\<rparr>,
                           src_Allowance = \<lparr>bd_MonthlyAverage = 0, bd_Total = 0\<rparr>,
                           src_Commission = \<lparr>bd_MonthlyAverage = 0, bd_Total = 0\<rparr>,
                           src_Other = \<lparr>bd_MonthlyAverage = 0, bd_Total = 0\<rparr>\<rparr>,
               AllowanceBreakdown := \<lparr>Allowances = [], ab_Total = 0\<rparr>,
               CommissionBreakdown := \<lparr>Commissions = [], cb_MonthlyAverage = 0, cb_Total = 0\<rparr>,
               SalaryBreakdown := \<lparr>MonthlySalaries = [], BasicSalary = 0, sb_Total = 0\<rparr>,
               PeriodInMonth := period, TotalBasicSalary := 0, TotalIncome := 0,
               TotalOtherIncome := 0, MonthlyAverageIncome := 0, MonthlyNetIncome := 0,
               ExchangeRate := exchangeRate\<rparr>)"
proof -
  have ti: "totalIncome Map.empty p = 0" for p by (simp add: totalIncome_def)
  have ms: "toListMonthlySalaries L Map.empty = \<lparr>MonthlySalaries = [], BasicSalary = 0, sb_Total = 0\<rparr>"
    by (simp add: toListMonthlySalaries_def)
  have al: "toListAllowances Map.empty = Some \<lparr>Allowances = [], ab_Total = 0\<rparr>"
    by (simp add: toListAllowances_def)
  have co: "toListCommissions L Map.empty period
              = Some \<lparr>Commissions = [], cb_MonthlyAverage = 0, cb_Total = 0\<rparr>"
    by (simp add: toListCommissions_def)
  have aa: "averageAllowance Map.empty period = Some 0" by (simp add: averageAllowance_def al)
  have ac: "averageCommission L Map.empty period = Some 0" by (simp add: averageCommission_def co)
  have b: "basicSalary L Map.empty p period = Some 0" for p
    by (simp add: basicSalary_def ti ms findMinAmountFromMonthlySalaries_def)
  have tb: "totalBasicSalary L Map.empty p period = Some 0" for p
    by (simp add: totalBasicSalary_def ti b)
  have toi: "totalOtherIncome L Map.empty period = Some 0"
    by (simp add: totalOtherIncome_def ti tb)
  have aoi: "averageOtherIncome L Map.empty period = Some 0"
    by (simp add: averageOtherIncome_def toi)
  have h: "averageOtherIncomeIn80Percent L Map.empty period = Some 0"
    by (simp add: averageOtherIncomeIn80Percent_def aoi ac aa)
  have mai: "averageMonthlyIncome L Map.empty product period = Some 0"
    by (simp add: averageMonthlyIncome_def b aa ac h basicSalaryFromInterview_def)
  have mni: "netIncomeMonthly L Map.empty product exchangeRate period = Some 0"
    by (simp add: netIncomeMonthly_def mai)
  have src: "newSourceIncome L Map.empty product period
     = Some \<lparr>src_BasicSalary = \<lparr>bd_MonthlyAverage = 0, bd_Total = 0\<rparr>,
                           src_Allowance = \<lparr>bd_MonthlyAverage = 0, bd_Total = 0\<rparr>,
                           src_Commission = \<lparr>bd_MonthlyAverage = 0, bd_Total = 0\<rparr>,
                           src_Other = \<lparr>bd_MonthlyAverage = 0, bd_Total = 0\<rparr>\<rparr>"
    by (simp add: newSourceIncome_def al aa co ac tb b)
  show ?thesis
    by (simp add: populate_def src al co tb toi mai mni ti ms)
qed

lemma fold_ingestRow_unclassified:
  "\<forall>row\<in>set rows. \<not> isClassified L wordlists row \<Longrightarrow>
   fold (ingestRow L wordlists) rows incomes = incomes"
  by (induction rows arbitrary: incomes) (simp_all add: ingestRow_unclassified)

lemma TrimSpace_Nil: "TrimSpace [] = []"
  by (simp add: TrimSpace_def TrimLeftSpace_def TrimRightSpace_def dropRunes_id find_None_iff)

text \<open>
  A text of 3 bytes that has not 3 characters holds a byte outside ASCII, and so does the
  text it was trimmed from.
\<close>

lemma three_bytes_not_three_characters:
  assumes "length (TrimSpace s) = 3" and "characterCount (TrimSpace s) \<noteq> 3"
  shows "\<exists>c\<in>set s. \<not> (of_char c :: nat) < 128"
proof (rule ccontr)
  assume "\<not> (\<exists>c\<in>set s. \<not> (of_char c :: nat) < 128)"
  then have "\<forall>c\<in>set (TrimSpace s). (of_char c :: nat) < 128"
    using set_TrimSpace [of s] by blast
  then have "characterCount (TrimSpace s) = length (TrimSpace s)" by (rule characterCount_ascii)
  then show False using assms by simp
qed

text \<open>
  What \<^verbatim>\<open>CalculateIncome\<close> refuses once the period line is read: a header without an
  account number or an account name, a currency code whose length in bytes is not 3, and
  a currency that the currency service does not know.
\<close>

lemma CalculateIncome_refused:
  assumes "Validate req" and "\<not> calculationExists E (cr_Number req)"
    and "statementFiles E (cr_StatementFileName req) = Some location"
    and "workbooks E location = Some f"
    and "extractPeriod L (cellA7 f) = Some period"
    and "extractAccount (cellA9 f) = '''' \<or> extractAccount (cellA10 f) = ''''
         \<or> length (TrimSpace (extractAccount (cellA11 f))) \<noteq> 3
         \<or> currencies E (extractAccount (cellA11 f)) = None"
  shows "CalculateIncome L E by now req = (Failed InvalidStatement, None)"
proof -
  have "calculateIncomeFromStatementFile L E by now req (listedWordlists E) location = Some None"
    using assms(4,5,6)
    by (cases period) (auto simp: calculateIncomeFromStatementFile_def Let_def)
  then show ?thesis using assms(1,2,3) by (simp add: CalculateIncome_def)
qed

text \<open>
  Claim C6, as amended. The request is valid, its number is new, the statement file is
  found and opens, and its period line is read. When the account number, the account name
  or the currency is missing from the header, or the currency code has not exactly 3
  characters, \<^verbatim>\<open>CalculateIncome\<close> fails with \<open>InvalidStatement\<close> and saves nothing. The code
  compares the length of the trimmed code in bytes with 3: a code of another length in
  bytes is refused there, and a code of 3 bytes that has not 3 characters holds a byte
  outside ASCII and is refused as unknown by a currency service whose codes are ASCII
  (\<^verbatim>\<open>CreateReq.Validate\<close> of package \<^verbatim>\<open>currency\<close> accepts ISO 4217 codes only). A statement
  with a good header, a known currency and no row that is a classified transaction is not
  refused: the calculation is returned and saved, pending, with empty breakdowns and the
  totals zero.
\<close>

theorem invalid_header_rejected:
  "Validate req \<and> \<not> calculationExists E (cr_Number req)
   \<and> statementFiles E (cr_StatementFileName req) = Some location
   \<and> workbooks E location = Some f
   \<and> extractPeriod L (cellA7 f) = Some period
   \<Longrightarrow>
   ((extractAccount (cellA9 f) = '''' \<or> extractAccount (cellA10 f) = ''''
       \<or> extractAccount (cellA11 f) = ''''
       \<or> length (TrimSpace (extractAccount (cellA11 f))) \<noteq> 3
       \<or> (characterCount (TrimSpace (extractAccount (cellA11 f))) \<noteq> 3
           \<and> (\<forall>code rate. currencies E code = Some rate \<longrightarrow>
                 (\<forall>c\<in>set code. (of_char c :: nat) < 128)))) \<longrightarrow>
      CalculateIncome L E by now req = (Failed InvalidStatement, None))
   \<and> (extractAccount (cellA9 f) \<noteq> '''' \<and> extractAccount (cellA10 f) \<noteq> ''''
       \<and> length (TrimSpace (extractAccount (cellA11 f))) = 3
       \<and> currencies E (extractAccount (cellA11 f)) = Some exchangeRate
       \<and> (\<forall>row\<in>set (sheetRows f). \<not> isClassified L (listedWordlists E) row)
       \<longrightarrow>
      (\<exists>c. CalculateIncome L E by now req = (Returned c, Some c)
           \<and> Status c = StatusPending \<and> TotalIncome c = 0 \<and> MonthlyNetIncome c = 0
           \<and> MonthlySalaries (SalaryBreakdown c) = []
           \<and> Allowances (AllowanceBreakdown c) = []
           \<and> Commissions (CommissionBreakdown c) = []))"
proof -
  assume a: "Validate req \<and> \<not> calculationExists E (cr_Number req)
   \<and> statementFiles E (cr_StatementFileName req) = Some location
   \<and> workbooks E location = Some f
   \<and> extractPeriod L (cellA7 f) = Some period"
  let ?cur = "extractAccount (cellA11 f)"
  have refused: "CalculateIncome L E by now req = (Failed InvalidStatement, None)"
    if "extractAccount (cellA9 f) = '''' \<or> extractAccount (cellA10 f) = ''''
         \<or> length (TrimSpace ?cur) \<noteq> 3 \<or> currencies E ?cur = None"
    using a that CalculateIncome_refused [of req E location f L period "by" now] by blast
  have bad: "CalculateIncome L E by now req = (Failed InvalidStatement, None)"
    if b: "extractAccount (cellA9 f) = '''' \<or> extractAccount (cellA10 f) = ''''
       \<or> ?cur = ''''
       \<or> length (TrimSpace ?cur) \<noteq> 3
       \<or> (characterCount (TrimSpace ?cur) \<noteq> 3
           \<and> (\<forall>code rate. currencies E code = Some rate \<longrightarrow>
                 (\<forall>c\<in>set code. (of_char c :: nat) < 128)))"
  proof (cases "extractAccount (cellA9 f) = '''' \<or> extractAccount (cellA10 f) = ''''
                 \<or> length (TrimSpace ?cur) \<noteq> 3")
    case True
    then show ?thesis using refused by blast
  next
    case False
    then have len: "length (TrimSpace ?cur) = 3" by simp
    then have "?cur \<noteq> ''''" using TrimSpace_Nil by auto
    then have chars: "characterCount (TrimSpace ?cur) \<noteq> 3"
      and ascii: "\<forall>code rate. currencies E code = Some rate \<longrightarrow>
                   (\<forall>c\<in>set code. (of_char c :: nat) < 128)"
      using b False by blast+
    obtain c where "c \<in> set ?cur" and "\<not> (of_char c :: nat) < 128"
      using three_bytes_not_three_characters [OF len chars] by blast
    then have "currencies E ?cur = None" using ascii by (cases "currencies E ?cur") auto
    then show ?thesis using refused by blast
  qed
  have good: "\<exists>c. CalculateIncome L E by now req = (Returned c, Some c)
           \<and> Status c = StatusPending \<and> TotalIncome c = 0 \<and> MonthlyNetIncome c = 0
           \<and> MonthlySalaries (SalaryBreakdown c) = []
           \<and> Allowances (AllowanceBreakdown c) = []
           \<and> Commissions (CommissionBreakdown c) = []"
    if h: "extractAccount (cellA9 f) \<noteq> '''' \<and> extractAccount (cellA10 f) \<noteq> ''''
       \<and> length (TrimSpace ?cur) = 3
       \<and> currencies E ?cur = Some exchangeRate
       \<and> (\<forall>row\<in>set (sheetRows f). \<not> isClassified L (listedWordlists E) row)"
  proof -
    have e: "ingestRows L (listedWordlists E) (sheetRows f) = Map.empty"
      using h by (simp add: ingestRows_def fold_ingestRow_unclassified)
    obtain "from" to where pd: "period = (from, to)" by (cases period)
    have a4: "Validate req \<and> \<not> calculationExists E (cr_Number req)
              \<and> statementFiles E (cr_StatementFileName req) = Some location
              \<and> workbooks E location = Some f"
      using a by blast
    have ft: "extractPeriod L (cellA7 f) = Some (from, to)" using a pd by simp
    obtain c where c: "calculateIncomeFromStatementFile L E by now req (listedWordlists E) location
                         = Some (Some c)"
      and p: "Status c = StatusPending \<and> TotalIncome c = 0 \<and> MonthlyNetIncome c = 0
           \<and> MonthlySalaries (SalaryBreakdown c) = []
           \<and> Allowances (AllowanceBreakdown c) = []
           \<and> Commissions (CommissionBreakdown c) = []"
      using a4 h ft
      by (simp add: calculateIncomeFromStatementFile_def Let_def e populate_empty
            newCalculation_def)
    have "CalculateIncome L E by now req
            = (Returned (saveCalculationIncome E c), Some (saveCalculationIncome E c))"
      using a4 c by (simp add: CalculateIncome_def Let_def)
    moreover have "saveCalculationIncome E c = c\<lparr>ID := insertID E\<rparr>"
      using a4 c
      by (auto simp: saveCalculationIncome_def calculateIncomeFromStatementFile_def Let_def e
            populate_empty newCalculation_def h ft)
    ultimately show ?thesis using p by simp
  qed
  show ?thesis using bad good by blast
qed

text \<open>
  The statement of the examples is refused without its account number, with a currency
  code of four letters, with a currency cell that holds no code, and with the euro sign,
  one character of three bytes, for its currency code. It is accepted as it is, and also with a title row of one cell before
  the cash deposit and, after it, a row whose memo the wordlist knows and whose amount is
  zero: the loop skips both.
\<close>

theorem invalid_header_rejected_witness:
  "CalculateIncome exampleLib (exampleStatementEnv (exampleSheet\<lparr>cellA9 := ''''\<rparr>)) ''teller''
     \<lparr>Year = 2024, Month = 4, Day = 2\<rparr> exampleCalculateReq
     = (Failed InvalidStatement, None)
   \<and> CalculateIncome exampleLib (exampleStatementEnv (exampleSheet\<lparr>cellA11 := ''Currency : KIPS''\<rparr>))
       ''teller'' \<lparr>Year = 2024, Month = 4, Day = 2\<rparr> exampleCalculateReq
     = (Failed InvalidStatement, None)
   \<and> CalculateIncome exampleLib (exampleStatementEnv (exampleSheet\<lparr>cellA11 := ''Currency''\<rparr>))
       ''teller'' \<lparr>Year = 2024, Month = 4, Day = 2\<rparr> exampleCalculateReq
     = (Failed InvalidStatement, None)
   \<and> length (TrimSpace (extractAccount (''Currency : '' @ [CHR 0xE2, CHR 0x82, CHR 0xAC]))) = 3
   \<and> CalculateIncome exampleLib
       (exampleStatementEnv
          (exampleSheet\<lparr>cellA11 := ''Currency : '' @ [CHR 0xE2, CHR 0x82, CHR 0xAC]\<rparr>))
       ''teller'' \<lparr>Year = 2024, Month = 4, Day = 2\<rparr> exampleCalculateReq
     = (Failed InvalidStatement, None)
   \<and> snd (CalculateIncome exampleLib (exampleStatementEnv exampleSheet) ''teller''
            \<lparr>Year = 2024, Month = 4, Day = 2\<rparr> exampleCalculateReq) \<noteq> None
   \<and> snd (CalculateIncome exampleLib
            (exampleStatementEnv
               (exampleSheet\<lparr>sheetRows :=
                  [[''Statement of account''],
                   [''15/01/2024'', ''B1'', ''cash deposit'', '''', ''500,000''],
                   [''16/01/2024'', ''B2'', ''salary'', '''', ''0'']]\<rparr>))
            ''teller'' \<lparr>Year = 2024, Month = 4, Day = 2\<rparr> exampleCalculateReq) \<noteq> None"
proof -
  let ?f1 = "exampleSheet\<lparr>cellA9 := ''''\<rparr>"
  let ?f2 = "exampleSheet\<lparr>cellA11 := ''Currency : KIPS''\<rparr>"
  let ?f3 = "exampleSheet\<lparr>cellA11 := ''Currency : '' @ [CHR 0xE2, CHR 0x82, CHR 0xAC]\<rparr>"
  let ?f4 = "exampleSheet\<lparr>sheetRows :=
                  [[''Statement of account''],
                   [''15/01/2024'', ''B1'', ''cash deposit'', '''', ''500,000''],
                   [''16/01/2024'', ''B2'', ''salary'', '''', ''0'']]\<rparr>"
  let ?f5 = "exampleSheet\<lparr>cellA11 := ''Currency''\<rparr>"
  let ?t = "\<lparr>Year = 2024, Month = 4, Day = 2\<rparr>"
  let ?p = "(\<lparr>Year = 2024, Month = 1, Day = 1\<rparr>, \<lparr>Year = 2024, Month = 3, Day = 31\<rparr>)"
  have h: "Validate exampleCalculateReq
           \<and> \<not> calculationExists (exampleStatementEnv f) (cr_Number exampleCalculateReq)
           \<and> statementFiles (exampleStatementEnv f) (cr_StatementFileName exampleCalculateReq)
               = Some ''/files/s.xlsx''
           \<and> workbooks (exampleStatementEnv f) ''/files/s.xlsx'' = Some f" for f
    by (simp add: Validate_def exampleCalculateReq_def exampleStatementEnv_def)
  have ascii: "\<forall>code rate. currencies (exampleStatementEnv f) code = Some rate \<longrightarrow>
                 (\<forall>c\<in>set code. (of_char c :: nat) < 128)" for f
    by (simp add: exampleStatementEnv_def)
  have p0: "extractPeriod exampleLib (cellA7 exampleSheet) = Some ?p" by code_simp
  have p1: "extractPeriod exampleLib (cellA7 ?f1) = Some ?p" using p0 by simp
  have p2: "extractPeriod exampleLib (cellA7 ?f2) = Some ?p" using p0 by simp
  have p3: "extractPeriod exampleLib (cellA7 ?f3) = Some ?p" using p0 by simp
  have p4: "extractPeriod exampleLib (cellA7 ?f4) = Some ?p" using p0 by simp
  have p5: "extractPeriod exampleLib (cellA7 ?f5) = Some ?p" using p0 by simp
  have b5: "extractAccount (cellA11 ?f5) = ''''" by code_simp
  have b1: "extractAccount (cellA9 ?f1) = ''''" by code_simp
  have b2: "length (TrimSpace (extractAccount (cellA11 ?f2))) \<noteq> 3" by code_simp
  have b3: "characterCount (TrimSpace (extractAccount (cellA11 ?f3))) \<noteq> 3" by code_simp
  have l3: "length (TrimSpace (extractAccount (''Currency : '' @ [CHR 0xE2, CHR 0x82, CHR 0xAC])))
              = 3" by code_simp
  have g: "extractAccount (cellA9 exampleSheet) \<noteq> '''' \<and> extractAccount (cellA10 exampleSheet) \<noteq> ''''
       \<and> length (TrimSpace (extractAccount (cellA11 exampleSheet))) = 3
       \<and> currencies (exampleStatementEnv exampleSheet) (extractAccount (cellA11 exampleSheet))
           = Some 1
       \<and> (\<forall>row\<in>set (sheetRows exampleSheet).
             \<not> isClassified exampleLib (listedWordlists (exampleStatementEnv exampleSheet)) row)"
    by code_simp
  have g4: "extractAccount (cellA9 ?f4) \<noteq> '''' \<and> extractAccount (cellA10 ?f4) \<noteq> ''''
       \<and> length (TrimSpace (extractAccount (cellA11 ?f4))) = 3
       \<and> currencies (exampleStatementEnv ?f4) (extractAccount (cellA11 ?f4)) = Some 1
       \<and> (\<forall>row\<in>set (sheetRows ?f4).
             \<not> isClassified exampleLib (listedWordlists (exampleStatementEnv ?f4)) row)"
    by code_simp
  have 1: "CalculateIncome exampleLib (exampleStatementEnv ?f1) ''teller'' ?t exampleCalculateReq
             = (Failed InvalidStatement, None)"
    using invalid_header_rejected
      [where req = exampleCalculateReq and E = "exampleStatementEnv ?f1"
         and location = "''/files/s.xlsx''" and f = ?f1 and L = exampleLib and period = ?p
         and ?by = "''teller''" and now = ?t]
      h [of ?f1] p1 b1
    by blast
  have 2: "CalculateIncome exampleLib (exampleStatementEnv ?f2) ''teller'' ?t exampleCalculateReq
             = (Failed InvalidStatement, None)"
    using invalid_header_rejected
      [where req = exampleCalculateReq and E = "exampleStatementEnv ?f2"
         and location = "''/files/s.xlsx''" and f = ?f2 and L = exampleLib and period = ?p
         and ?by = "''teller''" and now = ?t]
      h [of ?f2] p2 b2
    by blast
  have 3: "CalculateIncome exampleLib (exampleStatementEnv ?f3) ''teller'' ?t exampleCalculateReq
             = (Failed InvalidStatement, None)"
    using invalid_header_rejected
      [where req = exampleCalculateReq and E = "exampleStatementEnv ?f3"
         and location = "''/files/s.xlsx''" and f = ?f3 and L = exampleLib and period = ?p
         and ?by = "''teller''" and now = ?t]
      h [of ?f3] p3 b3 ascii [of ?f3]
    by blast
  have 6: "CalculateIncome exampleLib (exampleStatementEnv ?f5) ''teller'' ?t exampleCalculateReq
             = (Failed InvalidStatement, None)"
    using invalid_header_rejected
      [where req = exampleCalculateReq and E = "exampleStatementEnv ?f5"
         and location = "''/files/s.xlsx''" and f = ?f5 and L = exampleLib and period = ?p
         and ?by = "''teller''" and now = ?t]
      h [of ?f5] p5 b5
    by blast
  have 4: "\<exists>c. CalculateIncome exampleLib (exampleStatementEnv exampleSheet) ''teller'' ?t
                 exampleCalculateReq = (Returned c, Some c)"
    using invalid_header_rejected
      [where req = exampleCalculateReq and E = "exampleStatementEnv exampleSheet"
         and location = "''/files/s.xlsx''" and f = exampleSheet and L = exampleLib
         and period = ?p and ?by = "''teller''" and now = ?t and exchangeRate = 1]
      h [of exampleSheet] p0 g
    by blast
  have 5: "\<exists>c. CalculateIncome exampleLib (exampleStatementEnv ?f4) ''teller'' ?t
                 exampleCalculateReq = (Returned c, Some c)"
    using invalid_header_rejected
      [where req = exampleCalculateReq and E = "exampleStatementEnv ?f4"
         and location = "''/files/s.xlsx''" and f = ?f4 and L = exampleLib
         and period = ?p and ?by = "''teller''" and now = ?t and exchangeRate = 1]
      h [of ?f4] p4 g4
    by blast
  have s4: "snd (CalculateIncome exampleLib (exampleStatementEnv exampleSheet) ''teller'' ?t
                  exampleCalculateReq) \<noteq> None" using 4 by auto
  have s5: "snd (CalculateIncome exampleLib (exampleStatementEnv ?f4) ''teller'' ?t
                  exampleCalculateReq) \<noteq> None" using 5 by auto
  show ?thesis using 1 2 6 3 l3 s4 s5 by blast
qed

text \<open>
  Claim C6 as stated fails. The only row of the statement of the examples is a cash
  deposit, which the wordlist does not classify: after the pass over the rows there is no
  classified transaction. \<^verbatim>\<open>calculateIncomeFromStatementFile\<close> has no check after the loop,
  and \<^verbatim>\<open>CalculateIncome\<close> returns and saves a pending calculation over 2 months with the
  total income 0 and empty breakdowns.
\<close>

theorem unclassified_statement_accepted_counterexample:
  "\<not> snd (snd (matchWordlists exampleLib ''cash deposit''
                  (listedWordlists (exampleStatementEnv exampleSheet))))
   \<and> (case CalculateIncome exampleLib (exampleStatementEnv exampleSheet) ''teller''
              \<lparr>Year = 2024, Month = 4, Day = 2\<rparr> exampleCalculateReq of
         (Returned c, w) \<Rightarrow>
           w = Some c \<and> Status c = StatusPending \<and> PeriodInMonth c = 2 \<and> TotalIncome c = 0
           \<and> MonthlySalaries (SalaryBreakdown c) = []
           \<and> Allowances (AllowanceBreakdown c) = []
           \<and> Commissions (CommissionBreakdown c) = []
       | _ \<Rightarrow> False)"
  by code_simp

text \<open>
  Claim C7. On a completed calculation \<^verbatim>\<open>ReCalculateIncome\<close> fails with \<open>AlreadyCompleted\<close>
  and writes nothing to the database, and \<^verbatim>\<open>CompleteCalculation\<close> returns the calculation
  as it is and writes nothing. \<^verbatim>\<open>CompleteCalculation\<close> on a calculation that is not
  completed returns and saves a completed calculation; once the database holds it, a
  second call returns that same calculation, and a recalculation, whatever the request,
  fails.
\<close>

theorem completed_is_immutable:
  "(getCalculation E (rq_Number req) = Some c \<and> IsCompleted c \<longrightarrow>
      ReCalculateIncome L E by now req = (Failed AlreadyCompleted, None))
   \<and> (getCalculation E number = Some c \<and> IsCompleted c \<longrightarrow>
      CompleteCalculation E by now number = (Returned c, None))
   \<and> (getCalculation E number = Some c \<and> \<not> IsCompleted c \<longrightarrow>
      (\<exists>c'. CompleteCalculation E by now number = (Returned c', Some c') \<and> IsCompleted c'
         \<and> (\<forall>E' by' now'. getCalculation E' number = Some c' \<longrightarrow>
               CompleteCalculation E' by' now' number = (Returned c', None)
               \<and> ReCalculateIncome L E' by' now' (req\<lparr>rq_Number := number\<rparr>)
                   = (Failed AlreadyCompleted, None))))"
proof -
  have 1: "getCalculation E (rq_Number req) = Some c \<and> IsCompleted c \<longrightarrow>
      ReCalculateIncome L E by now req = (Failed AlreadyCompleted, None)"
    by (simp add: ReCalculateIncome_def)
  have 2: "getCalculation E number = Some c \<and> IsCompleted c \<longrightarrow>
      CompleteCalculation E by now number = (Returned c, None)"
    by (simp add: CompleteCalculation_def)
  have 3: "\<exists>c'. CompleteCalculation E by now number = (Returned c', Some c') \<and> IsCompleted c'
         \<and> (\<forall>E' by' now'. getCalculation E' number = Some c' \<longrightarrow>
               CompleteCalculation E' by' now' number = (Returned c', None)
               \<and> ReCalculateIncome L E' by' now' (req\<lparr>rq_Number := number\<rparr>)
                   = (Failed AlreadyCompleted, None))"
    if h: "getCalculation E number = Some c \<and> \<not> IsCompleted c"
  proof -
    let ?c' = "saveCalculationIncome E (Complete by now c)"
    have r: "CompleteCalculation E by now number = (Returned ?c', Some ?c')"
      using h by (simp add: CompleteCalculation_def Let_def)
    have d: "IsCompleted ?c'"
      by (simp add: IsCompleted_def saveCalculationIncome_def Complete_def)
    have "CompleteCalculation E' by' now' number = (Returned ?c', None)
          \<and> ReCalculateIncome L E' by' now' (req\<lparr>rq_Number := number\<rparr>)
               = (Failed AlreadyCompleted, None)"
      if "getCalculation E' number = Some ?c'" for E' by' now'
      using that d by (simp add: CompleteCalculation_def ReCalculateIncome_def)
    then show ?thesis using r d by blast
  qed
  show ?thesis using 1 2 3 by blast
qed

text \<open>
  The pending calculation of the examples is completed by a first call; on the completed
  calculation a recalculation fails and a second completion changes nothing.
\<close>

theorem completed_is_immutable_witness:
  "ReCalculateIncome exampleLib
     (exampleEnv\<lparr>calculations :=
        [''N-1'' \<mapsto> Complete ''chief'' \<lparr>Year = 2024, Month = 4, Day = 3\<rparr> examplePending]\<rparr>)
     ''teller'' \<lparr>Year = 2024, Month = 4, Day = 4\<rparr> (exampleRequest 0 [])
     = (Failed AlreadyCompleted, None)
   \<and> CompleteCalculation
     (exampleEnv\<lparr>calculations :=
        [''N-1'' \<mapsto> Complete ''chief'' \<lparr>Year = 2024, Month = 4, Day = 3\<rparr> examplePending]\<rparr>)
     ''teller'' \<lparr>Year = 2024, Month = 4, Day = 4\<rparr> ''N-1''
     = (Returned (Complete ''chief'' \<lparr>Year = 2024, Month = 4, Day = 3\<rparr> examplePending), None)
   \<and> CompleteCalculation exampleEnv ''chief'' \<lparr>Year = 2024, Month = 4, Day = 3\<rparr> ''N-1''
     = (Returned (Complete ''chief'' \<lparr>Year = 2024, Month = 4, Day = 3\<rparr> examplePending),
        Some (Complete ''chief'' \<lparr>Year = 2024, Month = 4, Day = 3\<rparr> examplePending))"
proof -
  let ?done = "Complete ''chief'' \<lparr>Year = 2024, Month = 4, Day = 3\<rparr> examplePending"
  let ?E = "exampleEnv\<lparr>calculations := [''N-1'' \<mapsto> ?done]\<rparr>"
  let ?t = "\<lparr>Year = 2024, Month = 4, Day = 4\<rparr>"
  have g: "getCalculation ?E (rq_Number (exampleRequest 0 [])) = Some ?done \<and> IsCompleted ?done"
    by (simp add: getCalculation_def exampleRequest_def IsCompleted_def Complete_def)
  have g': "getCalculation ?E ''N-1'' = Some ?done \<and> IsCompleted ?done"
    by (simp add: getCalculation_def IsCompleted_def Complete_def)
  have p: "getCalculation exampleEnv ''N-1'' = Some examplePending \<and> \<not> IsCompleted examplePending"
    by (simp add: getCalculation_def exampleEnv_def IsCompleted_def examplePending_def
          newCalculation_def)
  have 1: "ReCalculateIncome exampleLib ?E ''teller'' ?t (exampleRequest 0 [])
             = (Failed AlreadyCompleted, None)"
    using completed_is_immutable [of ?E "exampleRequest 0 []" ?done exampleLib "''teller''" ?t]
      g by blast
  have 2: "CompleteCalculation ?E ''teller'' ?t ''N-1'' = (Returned ?done, None)"
    using completed_is_immutable [of ?E "exampleRequest 0 []" ?done exampleLib "''teller''" ?t
        "''N-1''"] g' by blast
  obtain c' where c': "CompleteCalculation exampleEnv ''chief'' \<lparr>Year = 2024, Month = 4, Day = 3\<rparr> ''N-1''
                         = (Returned c', Some c')"
    using completed_is_immutable [of exampleEnv "exampleRequest 0 []" examplePending exampleLib
        "''chief''" "\<lparr>Year = 2024, Month = 4, Day = 3\<rparr>" "''N-1''"] p by blast
  have "c' = ?done"
    using c' p
    by (simp add: CompleteCalculation_def Let_def saveCalculationIncome_def exampleEnv_def
          Complete_def examplePending_def newCalculation_def)
  then show ?thesis using 1 2 c' by simp
qed

end
